theory Spec2Isabelle
  imports Main "HOL-Library.Word" "HOL-Library.Log_Nat"
begin

unbundle bit_operations_syntax

section \<open>Binary floating point of the C code\<close>

text \<open>
  The drivers compute with C \<^verbatim>\<open>float\<close> (IEEE 754 binary32) in the VEML7700
  resolution formula and with \<^verbatim>\<open>double\<close> (binary64) in the CMPS12 direction
  mapping. A finite floating-point value is modelled as the rational number it denotes;
  every operation is the exact rational operation followed by rounding to nearest, ties to
  even, at the precision \<open>p\<close> (24 or 53 significand bits) and minimal exponent \<open>emin\<close>
  (-126 or -1022) of the format. Infinities and NaN are not represented: the operands in
  these drivers are 16-bit integers and small constants, all divisors are non-zero
  constants, and no result comes near the overflow threshold.
\<close>

definition pow2 :: "int \<Rightarrow> rat" where
  "pow2 e = (if 0 \<le> e then 2 ^ nat e else 1 / 2 ^ nat (- e))"

text \<open>\<open>ilog2 x\<close> is the binary exponent of a non-zero \<open>x\<close>: \<open>2^e \<le> |x| < 2^(e+1)\<close>.\<close>

definition ilog2 :: "rat \<Rightarrow> int" where
  "ilog2 x = (let (p, q) = quotient_of \<bar>x\<bar>; d = bitlen p - bitlen q
              in if pow2 d \<le> \<bar>x\<bar> then d else d - 1)"

definition round_even :: "rat \<Rightarrow> int" where
  "round_even q = (let f = \<lfloor>q\<rfloor>; r = q - of_int f
                   in if r < 1 / 2 then f
                      else if 1 / 2 < r then f + 1
                      else if even f then f else f + 1)"

definition fp_round :: "nat \<Rightarrow> int \<Rightarrow> rat \<Rightarrow> rat" where
  "fp_round p emin x =
     (if x = 0 then 0
      else let e = max (ilog2 x) emin; u = pow2 (e - int p + 1)
           in of_int (round_even (x / u)) * u)"

type_synonym c_float = rat
type_synonym c_double = rat

definition f32_round :: "rat \<Rightarrow> c_float" where
  "f32_round = fp_round 24 (- 126)"

definition f64_round :: "rat \<Rightarrow> c_double" where
  "f64_round = fp_round 53 (- 1022)"

text \<open>A literal such as \<^verbatim>\<open>0.0042f\<close> denotes the nearest binary32 value.\<close>

definition f32_lit :: "rat \<Rightarrow> c_float" where
  "f32_lit x = f32_round x"

definition f32_mul :: "c_float \<Rightarrow> c_float \<Rightarrow> c_float" where
  "f32_mul a b = f32_round (a * b)"

definition f32_div :: "c_float \<Rightarrow> c_float \<Rightarrow> c_float" where
  "f32_div a b = f32_round (a / b)"

definition f32_of_u16 :: "16 word \<Rightarrow> c_float" where
  "f32_of_u16 w = f32_round (of_nat (unat w))"

definition f64_lit :: "rat \<Rightarrow> c_double" where
  "f64_lit x = f64_round x"

definition f64_add :: "c_double \<Rightarrow> c_double \<Rightarrow> c_double" where
  "f64_add a b = f64_round (a + b)"

definition f64_div :: "c_double \<Rightarrow> c_double \<Rightarrow> c_double" where
  "f64_div a b = f64_round (a / b)"

definition f64_of_u16 :: "16 word \<Rightarrow> c_double" where
  "f64_of_u16 w = f64_round (of_nat (unat w))"

text \<open>
  Faults of the C abstract machine that the code could run into: a \<^verbatim>\<open>double\<close>
  converted to \<^verbatim>\<open>int\<close> outside the range of \<^verbatim>\<open>int\<close>, and an array read
  outside the array. Both are undefined behaviour in C and are results of their own here.
\<close>

datatype c_fault = Int_Conversion_Out_Of_Range | Index_Out_Of_Bounds

text \<open>The cast \<^verbatim>\<open>(int)x\<close> of a double: truncation towards zero, 32-bit \<^verbatim>\<open>int\<close>.\<close>

definition double_to_int :: "c_double \<Rightarrow> c_fault + int" where
  "double_to_int x =
     (let t = (if 0 \<le> x then \<lfloor>x\<rfloor> else \<lceil>x\<rceil>)
      in if - (2 ^ 31) \<le> t \<and> t < 2 ^ 31 then Inr t else Inl Int_Conversion_Out_Of_Range)"

text \<open>C's \<^verbatim>\<open>%\<close> on \<^verbatim>\<open>int\<close>: the remainder has the sign of the dividend.\<close>

definition c_rem :: "int \<Rightarrow> int \<Rightarrow> int" where
  "c_rem a b = (if 0 \<le> a then a mod \<bar>b\<bar> else - ((- a) mod \<bar>b\<bar>))"

section \<open>The I2C bus\<close>

text \<open>
  The Pico SDK calls \<^verbatim>\<open>i2c_write_blocking\<close> and \<^verbatim>\<open>i2c_read_blocking\<close> are the
  only contact of the drivers with the hardware. The hardware is a record: \<open>respond\<close>
  gives, for the history of transactions up to and including the current one (most recent
  first), the \<^verbatim>\<open>int\<close> the SDK call returns (the number of bytes transferred, or a
  negative error code) and the bytes a read delivers; \<open>trace\<close> is the list of
  transactions issued so far, most recent first; \<open>slept_ms\<close> sums the arguments of
  \<^verbatim>\<open>sleep_ms\<close>. An I2C instance pointer is \<open>None\<close> (NULL) or names an instance.
\<close>

type_synonym i2c_inst_ptr = "nat option"

datatype bus_op =
    I2C_Write i2c_inst_ptr "8 word" "8 word list" bool
  | I2C_Read i2c_inst_ptr "8 word" nat bool

record hw =
  respond :: "bus_op list \<Rightarrow> int \<times> 8 word list"
  trace :: "bus_op list"
  slept_ms :: nat

definition i2c_write_blocking ::
  "i2c_inst_ptr \<Rightarrow> 8 word \<Rightarrow> 8 word list \<Rightarrow> bool \<Rightarrow> hw \<Rightarrow> int \<times> hw" where
  "i2c_write_blocking i2c addr src nostop w =
     (let t = I2C_Write i2c addr src nostop # trace w
      in (fst (respond w t), w\<lparr>trace := t\<rparr>))"

text \<open>
  A read returns the SDK result and the destination buffer of \<open>len\<close> bytes; bytes the
  device did not deliver read as 0 (the callers look at the buffer only after a full
  transfer).
\<close>

definition i2c_read_blocking ::
  "i2c_inst_ptr \<Rightarrow> 8 word \<Rightarrow> nat \<Rightarrow> bool \<Rightarrow> hw \<Rightarrow> (int \<times> 8 word list) \<times> hw" where
  "i2c_read_blocking i2c addr len nostop w =
     (let t = I2C_Read i2c addr len nostop # trace w;
          r = respond w t
      in ((fst r, take len (snd r @ replicate len 0)), w\<lparr>trace := t\<rparr>))"

definition sleep_ms :: "nat \<Rightarrow> hw \<Rightarrow> hw" where
  "sleep_ms n w = w\<lparr>slept_ms := slept_ms w + n\<rparr>"

section \<open>CMPS12 compass driver (src/target/standalone/src/cmps12.c)\<close>

definition CMPS12_ADDRESS :: "8 word" where
  "CMPS12_ADDRESS = 0x60"

record cmps12_t =
  i2c :: i2c_inst_ptr
  angle8 :: "8 word"
  angle16 :: "16 word"
  pitch :: "8 word"
  roll :: "8 word"

text \<open>
  \<^verbatim>\<open>cmps12_init\<close> dereferences \<open>compass\<close> without a check, so the struct is passed
  by value and returned updated. The probe reads one byte into a local that is not used.
\<close>

definition cmps12_init :: "cmps12_t \<Rightarrow> i2c_inst_ptr \<Rightarrow> hw \<Rightarrow> bool \<times> cmps12_t \<times> hw" where
  "cmps12_init compass i2c_arg w =
     (let c1 = compass\<lparr>i2c := i2c_arg\<rparr>;
          c2 = c1\<lparr>angle8 := 0\<rparr>;
          c3 = c2\<lparr>angle16 := 0\<rparr>;
          c4 = c3\<lparr>pitch := 0\<rparr>;
          c5 = c4\<lparr>roll := 0\<rparr>;
          (res, w1) = i2c_read_blocking i2c_arg CMPS12_ADDRESS 1 False w
      in (0 \<le> fst res, c5, w1))"

definition directions :: "string list" where
  "directions =
     [''N'', ''NNE'', ''NE'', ''ENE'',
      ''E'', ''ESE'', ''SE'', ''SSE'',
      ''S'', ''SSW'', ''SW'', ''WSW'',
      ''W'', ''WNW'', ''NW'', ''NNW'']"

text \<open>The value \<^verbatim>\<open>(int)((angle / 22.5) + 0.5)\<close>, computed in binary64.\<close>

definition cardinal_val :: "16 word \<Rightarrow> c_fault + int" where
  "cardinal_val angle =
     double_to_int (f64_add (f64_div (f64_of_u16 angle) (f64_lit (45 / 2))) (f64_lit (1 / 2)))"

definition cmps12_get_cardinal_direction :: "16 word \<Rightarrow> c_fault + string" where
  "cmps12_get_cardinal_direction angle =
     (case cardinal_val angle of
        Inl e \<Rightarrow> Inl e
      | Inr val \<Rightarrow>
          (let i = c_rem val 16
           in if 0 \<le> i \<and> i < int (length directions)
              then Inr (directions ! nat i)
              else Inl Index_Out_Of_Bounds))"

section \<open>VEML7700 ambient-light driver (src/lib/veml7700-pico-library)\<close>

subsection \<open>Constants and types of VEML7700.h\<close>

definition VEML7700_I2C_ADDRESS :: "8 word" where "VEML7700_I2C_ADDRESS = 0x10"
definition VEML7700_REG_ALS_CONF :: "8 word" where "VEML7700_REG_ALS_CONF = 0x00"
definition VEML7700_REG_ALS_WH :: "8 word" where "VEML7700_REG_ALS_WH = 0x01"
definition VEML7700_REG_ALS_WL :: "8 word" where "VEML7700_REG_ALS_WL = 0x02"
definition VEML7700_REG_POWER_SAVING :: "8 word" where "VEML7700_REG_POWER_SAVING = 0x03"
definition VEML7700_REG_ALS :: "8 word" where "VEML7700_REG_ALS = 0x04"
definition VEML7700_REG_WHITE :: "8 word" where "VEML7700_REG_WHITE = 0x05"
definition VEML7700_REG_ALS_INT :: "8 word" where "VEML7700_REG_ALS_INT = 0x06"
definition VEML7700_REG_ID :: "8 word" where "VEML7700_REG_ID = 0x07"

text \<open>
  A C enum object can hold any value of its underlying integer type, and
  \<^verbatim>\<open>veml7700_read_lux\<close> casts raw register bits to the enum types; the enum types
  are therefore 32-bit words and the enumerators named constants.
\<close>

type_synonym veml7700_gain_t = "32 word"
type_synonym veml7700_it_t = "32 word"
type_synonym veml7700_pers_t = "32 word"
type_synonym veml7700_psm_t = "32 word"

definition VEML7700_GAIN_1 :: veml7700_gain_t where "VEML7700_GAIN_1 = 0"
definition VEML7700_GAIN_2 :: veml7700_gain_t where "VEML7700_GAIN_2 = 1"
definition VEML7700_GAIN_1_8 :: veml7700_gain_t where "VEML7700_GAIN_1_8 = 2"
definition VEML7700_GAIN_1_4 :: veml7700_gain_t where "VEML7700_GAIN_1_4 = 3"

definition VEML7700_IT_25MS :: veml7700_it_t where "VEML7700_IT_25MS = 12"
definition VEML7700_IT_50MS :: veml7700_it_t where "VEML7700_IT_50MS = 8"
definition VEML7700_IT_100MS :: veml7700_it_t where "VEML7700_IT_100MS = 0"
definition VEML7700_IT_200MS :: veml7700_it_t where "VEML7700_IT_200MS = 1"
definition VEML7700_IT_400MS :: veml7700_it_t where "VEML7700_IT_400MS = 2"
definition VEML7700_IT_800MS :: veml7700_it_t where "VEML7700_IT_800MS = 3"

definition VEML7700_PERS_1 :: veml7700_pers_t where "VEML7700_PERS_1 = 0"
definition VEML7700_PERS_2 :: veml7700_pers_t where "VEML7700_PERS_2 = 1"
definition VEML7700_PERS_4 :: veml7700_pers_t where "VEML7700_PERS_4 = 2"
definition VEML7700_PERS_8 :: veml7700_pers_t where "VEML7700_PERS_8 = 3"

definition VEML7700_PSM_1 :: veml7700_psm_t where "VEML7700_PSM_1 = 0"
definition VEML7700_PSM_2 :: veml7700_psm_t where "VEML7700_PSM_2 = 1"
definition VEML7700_PSM_3 :: veml7700_psm_t where "VEML7700_PSM_3 = 2"
definition VEML7700_PSM_4 :: veml7700_psm_t where "VEML7700_PSM_4 = 3"

record veml7700_sensor_t =
  i2c_port :: i2c_inst_ptr
  config_cache :: "16 word"
  psm_cache :: "16 word"
  initialized :: bool
  current_gain :: veml7700_gain_t
  current_it :: veml7700_it_t

definition VEML7700_OK :: int where "VEML7700_OK = 0"
definition VEML7700_ERROR_INIT :: int where "VEML7700_ERROR_INIT = - 1"
definition VEML7700_ERROR_I2C_TX :: int where "VEML7700_ERROR_I2C_TX = - 2"
definition VEML7700_ERROR_I2C_RX :: int where "VEML7700_ERROR_I2C_RX = - 3"
definition VEML7700_ERROR_CONFIG :: int where "VEML7700_ERROR_CONFIG = - 4"
definition VEML7700_ERROR_INVALID_ARG :: int where "VEML7700_ERROR_INVALID_ARG = - 5"

text \<open>
  Modelled from the spec: the Pico SDK error codes \<^verbatim>\<open>PICO_ERROR_GENERIC\<close> and
  \<^verbatim>\<open>PICO_ERROR_TIMEOUT\<close> are declared in no file under src/lib; the spec (section 6)
  says only that the bus returns "a negative error code". The driver tests for them in
  branches that return the same status as the branch beside them, so no result depends
  on the two values.
\<close>

definition PICO_ERROR_GENERIC :: int where "PICO_ERROR_GENERIC = - 1"
definition PICO_ERROR_TIMEOUT :: int where "PICO_ERROR_TIMEOUT = - 2"

text \<open>
  Pointers. A sensor handle is \<open>None\<close> (NULL) or \<open>Some s\<close>, \<open>s\<close> being the contents
  of the struct it points to; a function that writes to the struct returns the handle with
  the new contents. An output pointer is \<open>NULL\<close> or \<open>Valid\<close>; a function returns
  \<open>Some v\<close> when it stored \<open>v\<close> through the pointer and \<open>None\<close> when it stored
  nothing.
\<close>

datatype ptr = NULL | Valid

text \<open>
  A local such as \<^verbatim>\<open>uint16_t device_id\<close> is declared without a value and its
  address passed as output pointer. Its contents afterwards are what the callee stored;
  when nothing was stored they are indeterminate in C, 0 here. Every caller reads the
  local only after the callee returned \<^verbatim>\<open>VEML7700_OK\<close>, and a callee that returns
  \<^verbatim>\<open>VEML7700_OK\<close> has stored a value.
\<close>

definition local_u16 :: "16 word option \<Rightarrow> 16 word" where
  "local_u16 out = (case out of Some v \<Rightarrow> v | None \<Rightarrow> 0)"

subsection \<open>Register transport\<close>

definition veml7700_write_reg ::
  "veml7700_sensor_t option \<Rightarrow> 8 word \<Rightarrow> 16 word \<Rightarrow> hw \<Rightarrow> int \<times> hw" where
  "veml7700_write_reg sensor reg data w =
     (case sensor of
        None \<Rightarrow> (VEML7700_ERROR_CONFIG, w)
      | Some s \<Rightarrow>
          if \<not> initialized s then (VEML7700_ERROR_CONFIG, w)
          else
            let buffer = [reg, ucast (data AND 0xFF), ucast (drop_bit 8 data AND 0xFF)];
                (result, w1) = i2c_write_blocking (i2c_port s) VEML7700_I2C_ADDRESS buffer False w
            in if result < 0 then
                 (if result = PICO_ERROR_GENERIC \<or> result = PICO_ERROR_TIMEOUT
                  then (VEML7700_ERROR_I2C_TX, w1)
                  else (VEML7700_ERROR_I2C_TX, w1))
               else if result \<noteq> 3 then (VEML7700_ERROR_I2C_TX, w1)
               else (VEML7700_OK, w1))"

definition veml7700_read_reg ::
  "veml7700_sensor_t option \<Rightarrow> 8 word \<Rightarrow> ptr \<Rightarrow> hw \<Rightarrow> int \<times> 16 word option \<times> hw" where
  "veml7700_read_reg sensor reg data w =
     (case sensor of
        None \<Rightarrow> (VEML7700_ERROR_CONFIG, None, w)
      | Some s \<Rightarrow>
          if \<not> initialized s then (VEML7700_ERROR_CONFIG, None, w)
          else if data = NULL then (VEML7700_ERROR_INVALID_ARG, None, w)
          else
            let (result, w1) = i2c_write_blocking (i2c_port s) VEML7700_I2C_ADDRESS [reg] True w
            in if result < 0 then
                 (if result = PICO_ERROR_GENERIC \<or> result = PICO_ERROR_TIMEOUT
                  then (VEML7700_ERROR_I2C_TX, None, w1)
                  else (VEML7700_ERROR_I2C_TX, None, w1))
               else if result \<noteq> 1 then (VEML7700_ERROR_I2C_TX, None, w1)
               else
                 let ((result2, buffer), w2) =
                       i2c_read_blocking (i2c_port s) VEML7700_I2C_ADDRESS 2 False w1
                 in if result2 < 0 then
                      (if result2 = PICO_ERROR_GENERIC \<or> result2 = PICO_ERROR_TIMEOUT
                       then (VEML7700_ERROR_I2C_RX, None, w2)
                       else (VEML7700_ERROR_I2C_RX, None, w2))
                    else if result2 \<noteq> 2 then (VEML7700_ERROR_I2C_RX, None, w2)
                    else (VEML7700_OK,
                          Some (push_bit 8 (ucast (buffer ! 1)) OR ucast (buffer ! 0)), w2))"

subsection \<open>Resolution\<close>

text \<open>The two \<^verbatim>\<open>switch\<close> statements of \<^verbatim>\<open>veml7700_get_resolution\<close>.\<close>

definition gain_val :: "veml7700_gain_t \<Rightarrow> c_float" where
  "gain_val gain =
     (if gain = VEML7700_GAIN_1_8 then f32_lit (1 / 8)
      else if gain = VEML7700_GAIN_1_4 then f32_lit (1 / 4)
      else if gain = VEML7700_GAIN_1 then f32_lit 1
      else if gain = VEML7700_GAIN_2 then f32_lit 2
      else f32_lit 1)"

definition it_val :: "veml7700_it_t \<Rightarrow> c_float" where
  "it_val it =
     (if it = VEML7700_IT_25MS then f32_lit 25
      else if it = VEML7700_IT_50MS then f32_lit 50
      else if it = VEML7700_IT_100MS then f32_lit 100
      else if it = VEML7700_IT_200MS then f32_lit 200
      else if it = VEML7700_IT_400MS then f32_lit 400
      else if it = VEML7700_IT_800MS then f32_lit 800
      else f32_lit 100)"

definition veml7700_get_resolution :: "veml7700_gain_t \<Rightarrow> veml7700_it_t \<Rightarrow> c_float" where
  "veml7700_get_resolution gain it =
     (let base_resolution_at_ref = f32_lit (42 / 10000);
          ref_gain_val = f32_lit 2;
          ref_it_val = f32_lit 800;
          resolution = f32_mul (f32_mul base_resolution_at_ref
                                        (f32_div ref_gain_val (gain_val gain)))
                               (f32_div ref_it_val (it_val it));
          resolution1 = (if f32_lit (21504 / 10000) < resolution
                         then f32_lit (21504 / 10000) else resolution);
          resolution2 = (if resolution1 < f32_lit (42 / 10000)
                         then f32_lit (42 / 10000) else resolution1)
      in resolution2)"

subsection \<open>Initialisation\<close>

text \<open>
  The pin and baud-rate arguments are not used by the body. The configuration word
  is the C expression
  \<^verbatim>\<open>(gain << 11) | (it << 6) | (VEML7700_PERS_1 << 4) | (0 << 1) | (0 << 0)\<close>
  narrowed to 16 bits by the assignment.
\<close>

definition veml7700_init ::
  "veml7700_sensor_t option \<Rightarrow> i2c_inst_ptr \<Rightarrow> nat \<Rightarrow> nat \<Rightarrow> nat \<Rightarrow> hw
     \<Rightarrow> int \<times> veml7700_sensor_t option \<times> hw" where
  "veml7700_init sensor i2c_port_arg sda_pin scl_pin baudrate w =
     (case sensor of
        None \<Rightarrow> (VEML7700_ERROR_INVALID_ARG, None, w)
      | Some s0 \<Rightarrow>
          if i2c_port_arg = None then (VEML7700_ERROR_INVALID_ARG, Some s0, w)
          else
            let s1 = s0\<lparr>i2c_port := i2c_port_arg\<rparr>;
                s2 = s1\<lparr>initialized := False\<rparr>;
                s3 = s2\<lparr>initialized := True\<rparr>;
                (status, device_id_out, w1) = veml7700_read_reg (Some s3) VEML7700_REG_ID Valid w;
                device_id = local_u16 device_id_out
            in if status \<noteq> VEML7700_OK
               then (VEML7700_ERROR_INIT, Some (s3\<lparr>initialized := False\<rparr>), w1)
               else
                 if device_id AND 0xFF \<noteq> 0x81 \<and> drop_bit 8 device_id \<noteq> 0x28
                 then (VEML7700_ERROR_INIT, Some (s3\<lparr>initialized := False\<rparr>), w1)
                 else
                   let s4 = s3\<lparr>current_gain := VEML7700_GAIN_1\<rparr>;
                       s5 = s4\<lparr>current_it := VEML7700_IT_100MS\<rparr>;
                       s6 = s5\<lparr>config_cache :=
                              ucast (push_bit 11 (current_gain s5)
                                     OR push_bit 6 (current_it s5)
                                     OR push_bit 4 VEML7700_PERS_1
                                     OR push_bit 1 0 OR push_bit 0 0)\<rparr>;
                       (status1, w2) =
                          veml7700_write_reg (Some s6) VEML7700_REG_ALS_CONF (config_cache s6) w1
                   in if status1 \<noteq> VEML7700_OK
                      then (status1, Some (s6\<lparr>initialized := False\<rparr>), w2)
                      else
                        let s7 = s6\<lparr>psm_cache := 0x0000\<rparr>;
                            (status2, w3) =
                               veml7700_write_reg (Some s7) VEML7700_REG_POWER_SAVING
                                 (psm_cache s7) w2
                        in if status2 \<noteq> VEML7700_OK
                           then (status2, Some (s7\<lparr>initialized := False\<rparr>), w3)
                           else
                             let (status3, w4) =
                                   veml7700_write_reg (Some s7) VEML7700_REG_ALS_WH 0xFFFF w3
                             in if status3 \<noteq> VEML7700_OK
                                then (status3, Some (s7\<lparr>initialized := False\<rparr>), w4)
                                else
                                  let (status4, w5) =
                                        veml7700_write_reg (Some s7) VEML7700_REG_ALS_WL 0x0000 w4
                                  in if status4 \<noteq> VEML7700_OK
                                     then (status4, Some (s7\<lparr>initialized := False\<rparr>), w5)
                                     else (VEML7700_OK, Some (s7\<lparr>initialized := True\<rparr>),
                                           sleep_ms 10 w5))"

subsection \<open>Reading\<close>

definition veml7700_read_als ::
  "veml7700_sensor_t option \<Rightarrow> ptr \<Rightarrow> hw \<Rightarrow> int \<times> 16 word option \<times> hw" where
  "veml7700_read_als sensor als_value w =
     (case sensor of
        None \<Rightarrow> (VEML7700_ERROR_CONFIG, None, w)
      | Some s \<Rightarrow>
          if \<not> initialized s then (VEML7700_ERROR_CONFIG, None, w)
          else if als_value = NULL then (VEML7700_ERROR_INVALID_ARG, None, w)
          else veml7700_read_reg sensor VEML7700_REG_ALS als_value w)"

definition veml7700_read_white ::
  "veml7700_sensor_t option \<Rightarrow> ptr \<Rightarrow> hw \<Rightarrow> int \<times> 16 word option \<times> hw" where
  "veml7700_read_white sensor white_value w =
     (case sensor of
        None \<Rightarrow> (VEML7700_ERROR_CONFIG, None, w)
      | Some s \<Rightarrow>
          if \<not> initialized s then (VEML7700_ERROR_CONFIG, None, w)
          else if white_value = NULL then (VEML7700_ERROR_INVALID_ARG, None, w)
          else veml7700_read_reg sensor VEML7700_REG_WHITE white_value w)"

text \<open>
  \<^verbatim>\<open>veml7700_read_lux\<close> passes \<^verbatim>\<open>&sensor->config_cache\<close> as the output pointer
  of the configuration read, so what that read stores lands in the handle. The result
  holds what was stored through \<open>lux_value\<close>, the handle and the hardware.
\<close>

definition veml7700_read_lux ::
  "veml7700_sensor_t option \<Rightarrow> ptr \<Rightarrow> hw
     \<Rightarrow> int \<times> c_float option \<times> veml7700_sensor_t option \<times> hw" where
  "veml7700_read_lux sensor lux_value w =
     (case sensor of
        None \<Rightarrow> (VEML7700_ERROR_CONFIG, None, None, w)
      | Some s \<Rightarrow>
          if \<not> initialized s then (VEML7700_ERROR_CONFIG, None, Some s, w)
          else if lux_value = NULL then (VEML7700_ERROR_INVALID_ARG, None, Some s, w)
          else
            let (status, als_raw_out, w1) = veml7700_read_als (Some s) Valid w;
                als_raw = local_u16 als_raw_out
            in if status \<noteq> VEML7700_OK
               then (status, Some (f32_lit (- 1)), Some s, w1)
               else
                 let (status1, config_out, w2) =
                       veml7700_read_reg (Some s) VEML7700_REG_ALS_CONF Valid w1;
                     s1 = (case config_out of None \<Rightarrow> s | Some c \<Rightarrow> s\<lparr>config_cache := c\<rparr>)
                 in if status1 \<noteq> VEML7700_OK
                    then (status1, Some (f32_lit (- 1)), Some s1, w2)
                    else
                      let s2 = s1\<lparr>current_gain := ucast (drop_bit 11 (config_cache s1) AND 0x03)\<rparr>;
                          s3 = s2\<lparr>current_it := ucast (drop_bit 6 (config_cache s2) AND 0x0F)\<rparr>;
                          gain = current_gain s3;
                          it = current_it s3;
                          resolution = veml7700_get_resolution gain it
                      in (VEML7700_OK, Some (f32_mul (f32_of_u16 als_raw) resolution),
                          Some s3, w2))"

definition veml7700_read_interrupt_status ::
  "veml7700_sensor_t option \<Rightarrow> ptr \<Rightarrow> hw \<Rightarrow> int \<times> 16 word option \<times> hw" where
  "veml7700_read_interrupt_status sensor interrupt_status w =
     (case sensor of
        None \<Rightarrow> (VEML7700_ERROR_CONFIG, None, w)
      | Some s \<Rightarrow>
          if \<not> initialized s then (VEML7700_ERROR_CONFIG, None, w)
          else if interrupt_status = NULL then (VEML7700_ERROR_INVALID_ARG, None, w)
          else veml7700_read_reg sensor VEML7700_REG_ALS_INT interrupt_status w)"

definition veml7700_read_device_id ::
  "veml7700_sensor_t option \<Rightarrow> ptr \<Rightarrow> hw \<Rightarrow> int \<times> 16 word option \<times> hw" where
  "veml7700_read_device_id sensor device_id w =
     (case sensor of
        None \<Rightarrow> (VEML7700_ERROR_CONFIG, None, w)
      | Some s \<Rightarrow>
          if \<not> initialized s then (VEML7700_ERROR_CONFIG, None, w)
          else if device_id = NULL then (VEML7700_ERROR_INVALID_ARG, None, w)
          else veml7700_read_reg sensor VEML7700_REG_ID device_id w)"

subsection \<open>Configuration setters\<close>

text \<open>
  Each setter updates the shadow in the handle first and then writes the shadow to the
  device. \<^verbatim>\<open>(uint16_t)gain << 11\<close> is computed in \<^verbatim>\<open>int\<close> and narrowed to 16 bits
  by the compound assignment, which is the 16-bit shift of the narrowed operand.
\<close>

definition veml7700_set_gain ::
  "veml7700_sensor_t option \<Rightarrow> veml7700_gain_t \<Rightarrow> hw \<Rightarrow> int \<times> veml7700_sensor_t option \<times> hw" where
  "veml7700_set_gain sensor gain w =
     (case sensor of
        None \<Rightarrow> (VEML7700_ERROR_CONFIG, None, w)
      | Some s \<Rightarrow>
          if \<not> initialized s then (VEML7700_ERROR_CONFIG, Some s, w)
          else
            let s1 = s\<lparr>config_cache := config_cache s AND NOT (push_bit 11 0b11)\<rparr>;
                s2 = s1\<lparr>config_cache := config_cache s1 OR push_bit 11 (ucast gain)\<rparr>;
                (status, w1) = veml7700_write_reg (Some s2) VEML7700_REG_ALS_CONF (config_cache s2) w
            in if status = VEML7700_OK
               then (status, Some (s2\<lparr>current_gain := gain\<rparr>), w1)
               else (status, Some s2, w1))"

definition veml7700_set_integration_time ::
  "veml7700_sensor_t option \<Rightarrow> veml7700_it_t \<Rightarrow> hw \<Rightarrow> int \<times> veml7700_sensor_t option \<times> hw" where
  "veml7700_set_integration_time sensor it w =
     (case sensor of
        None \<Rightarrow> (VEML7700_ERROR_CONFIG, None, w)
      | Some s \<Rightarrow>
          if \<not> initialized s then (VEML7700_ERROR_CONFIG, Some s, w)
          else
            let s1 = s\<lparr>config_cache := config_cache s AND NOT (push_bit 6 0b1111)\<rparr>;
                s2 = s1\<lparr>config_cache := config_cache s1 OR push_bit 6 (ucast it)\<rparr>;
                (status, w1) = veml7700_write_reg (Some s2) VEML7700_REG_ALS_CONF (config_cache s2) w
            in if status = VEML7700_OK
               then (status, Some (s2\<lparr>current_it := it\<rparr>), w1)
               else (status, Some s2, w1))"

definition veml7700_set_persistence ::
  "veml7700_sensor_t option \<Rightarrow> veml7700_pers_t \<Rightarrow> hw \<Rightarrow> int \<times> veml7700_sensor_t option \<times> hw" where
  "veml7700_set_persistence sensor pers w =
     (case sensor of
        None \<Rightarrow> (VEML7700_ERROR_CONFIG, None, w)
      | Some s \<Rightarrow>
          if \<not> initialized s then (VEML7700_ERROR_CONFIG, Some s, w)
          else
            let s1 = s\<lparr>config_cache := config_cache s AND NOT (push_bit 4 0b11)\<rparr>;
                s2 = s1\<lparr>config_cache := config_cache s1 OR push_bit 4 (ucast pers)\<rparr>;
                (status, w1) = veml7700_write_reg (Some s2) VEML7700_REG_ALS_CONF (config_cache s2) w
            in (status, Some s2, w1))"

definition veml7700_enable_interrupt ::
  "veml7700_sensor_t option \<Rightarrow> bool \<Rightarrow> hw \<Rightarrow> int \<times> veml7700_sensor_t option \<times> hw" where
  "veml7700_enable_interrupt sensor enable w =
     (case sensor of
        None \<Rightarrow> (VEML7700_ERROR_CONFIG, None, w)
      | Some s \<Rightarrow>
          if \<not> initialized s then (VEML7700_ERROR_CONFIG, Some s, w)
          else
            let s1 = (if enable
                      then s\<lparr>config_cache := config_cache s OR push_bit 1 1\<rparr>
                      else s\<lparr>config_cache := config_cache s AND NOT (push_bit 1 1)\<rparr>);
                (status, w1) = veml7700_write_reg (Some s1) VEML7700_REG_ALS_CONF (config_cache s1) w
            in (status, Some s1, w1))"

definition veml7700_set_high_threshold ::
  "veml7700_sensor_t option \<Rightarrow> 16 word \<Rightarrow> hw \<Rightarrow> int \<times> veml7700_sensor_t option \<times> hw" where
  "veml7700_set_high_threshold sensor threshold w =
     (case sensor of
        None \<Rightarrow> (VEML7700_ERROR_CONFIG, None, w)
      | Some s \<Rightarrow>
          if \<not> initialized s then (VEML7700_ERROR_CONFIG, Some s, w)
          else
            let (status, w1) = veml7700_write_reg sensor VEML7700_REG_ALS_WH threshold w
            in (status, Some s, w1))"

definition veml7700_set_low_threshold ::
  "veml7700_sensor_t option \<Rightarrow> 16 word \<Rightarrow> hw \<Rightarrow> int \<times> veml7700_sensor_t option \<times> hw" where
  "veml7700_set_low_threshold sensor threshold w =
     (case sensor of
        None \<Rightarrow> (VEML7700_ERROR_CONFIG, None, w)
      | Some s \<Rightarrow>
          if \<not> initialized s then (VEML7700_ERROR_CONFIG, Some s, w)
          else
            let (status, w1) = veml7700_write_reg sensor VEML7700_REG_ALS_WL threshold w
            in (status, Some s, w1))"

subsection \<open>Power\<close>

definition veml7700_enable_power_saving ::
  "veml7700_sensor_t option \<Rightarrow> bool \<Rightarrow> hw \<Rightarrow> int \<times> veml7700_sensor_t option \<times> hw" where
  "veml7700_enable_power_saving sensor enable w =
     (case sensor of
        None \<Rightarrow> (VEML7700_ERROR_CONFIG, None, w)
      | Some s \<Rightarrow>
          if \<not> initialized s then (VEML7700_ERROR_CONFIG, Some s, w)
          else
            let s1 = (if enable
                      then s\<lparr>psm_cache := psm_cache s OR push_bit 0 1\<rparr>
                      else s\<lparr>psm_cache := psm_cache s AND NOT (push_bit 0 1)\<rparr>);
                (status, w1) =
                   veml7700_write_reg (Some s1) VEML7700_REG_POWER_SAVING (psm_cache s1) w
            in (status, Some s1, w1))"

definition veml7700_set_power_saving_mode ::
  "veml7700_sensor_t option \<Rightarrow> veml7700_psm_t \<Rightarrow> hw \<Rightarrow> int \<times> veml7700_sensor_t option \<times> hw" where
  "veml7700_set_power_saving_mode sensor psm w =
     (case sensor of
        None \<Rightarrow> (VEML7700_ERROR_CONFIG, None, w)
      | Some s \<Rightarrow>
          if \<not> initialized s then (VEML7700_ERROR_CONFIG, Some s, w)
          else
            let s1 = s\<lparr>psm_cache := psm_cache s AND NOT (push_bit 1 0b11)\<rparr>;
                s2 = s1\<lparr>psm_cache := psm_cache s1 OR push_bit 1 (ucast psm)\<rparr>;
                (status, w1) =
                   veml7700_write_reg (Some s2) VEML7700_REG_POWER_SAVING (psm_cache s2) w
            in (status, Some s2, w1))"

definition veml7700_power_on ::
  "veml7700_sensor_t option \<Rightarrow> hw \<Rightarrow> int \<times> veml7700_sensor_t option \<times> hw" where
  "veml7700_power_on sensor w =
     (case sensor of
        None \<Rightarrow> (VEML7700_ERROR_CONFIG, None, w)
      | Some s \<Rightarrow>
          if \<not> initialized s then (VEML7700_ERROR_CONFIG, Some s, w)
          else
            let s1 = s\<lparr>config_cache := config_cache s AND NOT (push_bit 0 1)\<rparr>;
                (status, w1) = veml7700_write_reg (Some s1) VEML7700_REG_ALS_CONF (config_cache s1) w
            in if status = VEML7700_OK
               then (status, Some s1, sleep_ms 10 w1)
               else (status, Some s1, w1))"

definition veml7700_shutdown ::
  "veml7700_sensor_t option \<Rightarrow> hw \<Rightarrow> int \<times> veml7700_sensor_t option \<times> hw" where
  "veml7700_shutdown sensor w =
     (case sensor of
        None \<Rightarrow> (VEML7700_ERROR_CONFIG, None, w)
      | Some s \<Rightarrow>
          if \<not> initialized s then (VEML7700_ERROR_CONFIG, Some s, w)
          else
            let s1 = s\<lparr>config_cache := config_cache s OR push_bit 0 1\<rparr>;
                (status, w1) = veml7700_write_reg (Some s1) VEML7700_REG_ALS_CONF (config_cache s1) w
            in (status, Some s1, w1))"

section \<open>Specification-level definitions and example hardware\<close>

text \<open>
  The spec describes the direction mapping as \<open>round(angle / 22.5) mod 16\<close>, in exact
  arithmetic; \<open>round\<close> is rounding to the nearest integer.
\<close>

definition spec_cardinal_index :: "nat \<Rightarrow> nat" where
  "spec_cardinal_index angle = nat (round (of_nat angle / (45 / 2) :: rat) mod 16)"

text \<open>A bus on which every transaction fails with error code -1.\<close>

definition dead_bus :: hw where
  "dead_bus = \<lparr>respond = (\<lambda>t. (- 1, [])), trace = [], slept_ms = 0\<rparr>"

text \<open>
  A bus with a device that accepts every write in full and answers a two-byte read with
  the little-endian contents of the register addressed by the preceding one-byte write.
\<close>

definition device_respond :: "(8 word \<Rightarrow> 16 word) \<Rightarrow> bus_op list \<Rightarrow> int \<times> 8 word list" where
  "device_respond regs t =
     (case t of
        I2C_Write p a bs ns # rest \<Rightarrow> (int (length bs), [])
      | I2C_Read p a n ns # I2C_Write p' a' [reg] ns' # rest \<Rightarrow>
          (int n, [ucast (regs reg), ucast (drop_bit 8 (regs reg))])
      | _ \<Rightarrow> (- 1, []))"

definition device_bus :: "(8 word \<Rightarrow> 16 word) \<Rightarrow> hw" where
  "device_bus regs = \<lparr>respond = device_respond regs, trace = [], slept_ms = 0\<rparr>"

text \<open>
  The handles every operation but \<^verbatim>\<open>veml7700_init\<close> refuses: the test
  \<^verbatim>\<open>!sensor || !sensor->initialized\<close> at the head of each of them.
\<close>

definition handle_unusable :: "veml7700_sensor_t option \<Rightarrow> bool" where
  "handle_unusable sensor = (case sensor of None \<Rightarrow> True | Some s \<Rightarrow> \<not> initialized s)"

text \<open>The enumerators of \<^verbatim>\<open>veml7700_gain_t\<close> and \<^verbatim>\<open>veml7700_it_t\<close>.\<close>

definition valid_gain :: "veml7700_gain_t \<Rightarrow> bool" where
  "valid_gain g \<longleftrightarrow>
     g = VEML7700_GAIN_1 \<or> g = VEML7700_GAIN_2 \<or> g = VEML7700_GAIN_1_8 \<or> g = VEML7700_GAIN_1_4"

definition valid_it :: "veml7700_it_t \<Rightarrow> bool" where
  "valid_it t \<longleftrightarrow>
     t = VEML7700_IT_25MS \<or> t = VEML7700_IT_50MS \<or> t = VEML7700_IT_100MS \<or>
     t = VEML7700_IT_200MS \<or> t = VEML7700_IT_400MS \<or> t = VEML7700_IT_800MS"

text \<open>
  The gain factor and the integration time in milliseconds that the enumerator names
  of VEML7700.h stand for (\<^verbatim>\<open>VEML7700_GAIN_1_8\<close> is gain x1/8,
  \<^verbatim>\<open>VEML7700_IT_25MS\<close> is 25 ms), written down apart from the driver's
  \<^verbatim>\<open>switch\<close> statements.
\<close>

definition spec_gain_factor :: "veml7700_gain_t \<Rightarrow> rat" where
  "spec_gain_factor g =
     (if g = VEML7700_GAIN_1_8 then 1 / 8
      else if g = VEML7700_GAIN_1_4 then 1 / 4
      else if g = VEML7700_GAIN_2 then 2
      else 1)"

definition spec_it_ms :: "veml7700_it_t \<Rightarrow> rat" where
  "spec_it_ms t =
     (if t = VEML7700_IT_25MS then 25
      else if t = VEML7700_IT_50MS then 50
      else if t = VEML7700_IT_200MS then 200
      else if t = VEML7700_IT_400MS then 400
      else if t = VEML7700_IT_800MS then 800
      else 100)"

text \<open>A bus on which every transaction returns \<open>r\<close>, reads delivering 0x34, 0x12.\<close>

definition fixed_bus :: "int \<Rightarrow> hw" where
  "fixed_bus r = \<lparr>respond = (\<lambda>t. (r, [0x34, 0x12])), trace = [], slept_ms = 0\<rparr>"

text \<open>
  A bus whose device answers register reads like \<open>device_bus\<close> but takes no data: a
  write of anything but a one-byte register pointer fails with error code -1.
\<close>

definition readonly_respond :: "(8 word \<Rightarrow> 16 word) \<Rightarrow> bus_op list \<Rightarrow> int \<times> 8 word list" where
  "readonly_respond regs t =
     (case t of
        I2C_Write p a [reg] ns # rest \<Rightarrow> (1, [])
      | I2C_Read p a n ns # I2C_Write p' a' [reg] ns' # rest \<Rightarrow>
          (int n, [ucast (regs reg), ucast (drop_bit 8 (regs reg))])
      | _ \<Rightarrow> (- 1, []))"

definition readonly_bus :: "(8 word \<Rightarrow> 16 word) \<Rightarrow> hw" where
  "readonly_bus regs = \<lparr>respond = readonly_respond regs, trace = [], slept_ms = 0\<rparr>"

text \<open>Register files: only the ID register set; a light reading of 1000 counts at gain x1, 800 ms.\<close>

definition id_regs :: "16 word \<Rightarrow> 8 word \<Rightarrow> 16 word" where
  "id_regs v r = (if r = VEML7700_REG_ID then v else 0)"


text \<open>
  Handles: initialised with the default configuration; the same not initialised; initialised
  with a shadow and fields left over from gain x2.
\<close>

definition sensor0 :: veml7700_sensor_t where
  "sensor0 = \<lparr>i2c_port = Some 0, config_cache = 0, psm_cache = 0, initialized = True,
              current_gain = VEML7700_GAIN_1, current_it = VEML7700_IT_100MS\<rparr>"

definition sensor_uninit :: veml7700_sensor_t where
  "sensor_uninit = sensor0\<lparr>initialized := False\<rparr>"

definition sensor_stale :: veml7700_sensor_t where
  "sensor_stale = \<lparr>i2c_port = Some 0, config_cache = 0x0800, psm_cache = 0, initialized = True,
                   current_gain = VEML7700_GAIN_2, current_it = VEML7700_IT_25MS\<rparr>"

section \<open>Rounding lemmas\<close>

lemma pow2_pos: "0 < pow2 e"
  by (simp add: pow2_def)

lemma pow2_eq_power_int: "pow2 e = 2 powi e"
  by (simp add: pow2_def power_int_def field_simps)

lemma pow2_mono: "a \<le> b \<Longrightarrow> pow2 a \<le> pow2 b"
  by (simp add: pow2_eq_power_int power_int_increasing)

lemma pow2_less_iff: "pow2 a < pow2 b \<longleftrightarrow> a < b"
proof
  assume "pow2 a < pow2 b"
  then show "a < b" using pow2_mono[of b a] by (cases "a < b") auto
next
  assume "a < b"
  then show "pow2 a < pow2 b" by (simp add: pow2_eq_power_int power_int_strict_increasing)
qed

lemma round_even_err: "\<bar>of_int (round_even q) - q\<bar> \<le> 1 / 2"
proof -
  have "of_int \<lfloor>q\<rfloor> \<le> q" "q < of_int \<lfloor>q\<rfloor> + 1" by linarith+
  then show ?thesis
    unfolding round_even_def Let_def by (auto simp: abs_le_iff)
qed

lemma round_even_nonneg: "0 \<le> q \<Longrightarrow> 0 \<le> round_even q"
  unfolding round_even_def Let_def by auto

lemma round_even_of_int: "round_even (of_int k) = k"
  by (simp add: round_even_def)

text \<open>Rounding moves a value by at most half a unit in the last place.\<close>

lemma fp_round_err:
  "\<bar>fp_round p emin x - x\<bar> \<le> pow2 (max (ilog2 x) emin - int p + 1) / 2"
proof (cases "x = 0")
  case True
  then show ?thesis
    using pow2_pos[of "max (ilog2 x) emin - int p + 1"] by (simp add: fp_round_def)
next
  case False
  define u where "u = pow2 (max (ilog2 x) emin - int p + 1)"
  have u: "0 < u" by (simp add: u_def pow2_pos)
  have "fp_round p emin x - x = (of_int (round_even (x / u)) - x / u) * u"
    using False u by (simp add: fp_round_def Let_def u_def field_simps)
  then have "\<bar>fp_round p emin x - x\<bar> = \<bar>of_int (round_even (x / u)) - x / u\<bar> * u"
    using u by (simp add: abs_mult)
  also have "\<dots> \<le> (1 / 2) * u"
    using round_even_err[of "x / u"] u by (intro mult_right_mono) auto
  finally show ?thesis by (simp add: u_def)
qed

lemma fp_round_nonneg:
  assumes "0 \<le> x"
  shows "0 \<le> fp_round p emin x"
proof (cases "x = 0")
  case True
  then show ?thesis by (simp add: fp_round_def)
next
  case False
  define u where "u = pow2 (max (ilog2 x) emin - int p + 1)"
  have u: "0 < u" by (simp add: u_def pow2_pos)
  from assms have "0 \<le> x / u" using u by simp
  then have "0 \<le> round_even (x / u)" by (rule round_even_nonneg)
  then have "0 \<le> rat_of_int (round_even (x / u)) * u" using u by simp
  then show ?thesis using False by (simp add: fp_round_def Let_def u_def)
qed

lemma ilog2_upper:
  assumes "0 < x" "x < pow2 k"
  shows "ilog2 x < k"
proof -
  obtain p q where pq: "quotient_of x = (p, q)" by (cases "quotient_of x")
  then have q: "0 < q" and x: "x = of_int p / of_int q"
    using quotient_of_denom_pos quotient_of_div by auto
  with assms have p: "0 < p" by (simp add: zero_less_divide_iff)
  define d where "d = bitlen p - bitlen q"
  have ax: "\<bar>x\<bar> = x" using assms by simp
  show ?thesis
  proof (cases "pow2 d \<le> x")
    case True
    then have "ilog2 x = d" by (simp add: ilog2_def ax pq d_def)
    moreover have "pow2 d < pow2 k" using True assms by simp
    ultimately show ?thesis by (simp add: pow2_less_iff)
  next
    case False
    then have e: "ilog2 x = d - 1" by (simp add: ilog2_def ax pq d_def)
    have bp: "2 ^ nat (bitlen p - 1) \<le> p" using bitlen_bounds[OF p] by simp
    have bq: "q < 2 ^ nat (bitlen q)" using bitlen_bounds[OF q] by simp
    have bpos: "1 \<le> bitlen p" "1 \<le> bitlen q"
      using p q by (simp_all add: bitlen_def floorlog_def)
    have "pow2 (d - 1) = 2 powi (bitlen p - 1) / 2 powi (bitlen q)"
      by (simp add: pow2_eq_power_int d_def power_int_diff)
    also have "\<dots> = of_int (2 ^ nat (bitlen p - 1)) / of_int (2 ^ nat (bitlen q))"
      using bpos by (simp add: power_int_def)
    also have "\<dots> \<le> of_int p / of_int q"
      using bp bq q p by (intro frac_le) (simp_all del: of_int_power)
    finally have "pow2 (d - 1) \<le> x" by (simp add: x)
    then have "pow2 (d - 1) < pow2 k" using assms by simp
    then show ?thesis using e by (simp add: pow2_less_iff)
  qed
qed

section \<open>CMPS12: the direction index\<close>

text \<open>
  The binary64 computation \<^verbatim>\<open>(int)((angle / 22.5) + 0.5)\<close> yields the integer
  \<open>(4 * angle + 45) div 90\<close> for every 16-bit angle: the exact value
  \<open>(4 * angle + 45) / 90\<close> has an odd numerator, so it stays at least \<open>1/90\<close> away
  from every integer, and the two roundings move it by less than \<open>2^-41\<close>.
\<close>

lemma f64_lit_22_5: "f64_lit (45 / 2) = 45 / 2"
  unfolding f64_lit_def f64_round_def by code_simp

lemma f64_lit_half: "f64_lit (1 / 2) = 1 / 2"
  unfolding f64_lit_def f64_round_def by code_simp

lemma pow2_12: "pow2 12 = 4096" by (simp add: pow2_def)

lemma f64_round_err_4096:
  assumes "0 \<le> x" "x < 4096"
  shows "\<bar>f64_round x - x\<bar> \<le> 1 / 2 ^ 42"
proof (cases "x = 0")
  case True
  then show ?thesis by (simp add: f64_round_def fp_round_def)
next
  case False
  with assms have "ilog2 x < 12" by (intro ilog2_upper) (simp_all add: pow2_12)
  then have "max (ilog2 x) (- 1022) - int 53 + 1 \<le> - 41" by simp
  then have "pow2 (max (ilog2 x) (- 1022) - int 53 + 1) \<le> pow2 (- 41)" by (rule pow2_mono)
  also have "pow2 (- 41) = 1 / 2 ^ 41" by (simp add: pow2_def)
  finally show ?thesis
    using fp_round_err[of 53 "- 1022" x] by (simp add: f64_round_def)
qed

text \<open>Integers below 2^53 are binary64 values.\<close>
lemma f64_round_of_nat:
  assumes "n < 65536"
  shows "f64_round (of_nat n) = of_nat n"
proof (cases "n = 0")
  case True
  then show ?thesis by (simp add: f64_round_def fp_round_def)
next
  case False
  define x :: rat where "x = of_nat n"
  have x: "0 < x" "x < pow2 16" using False assms by (simp_all add: x_def pow2_def)
  then have "ilog2 x < 16" by (rule ilog2_upper)
  define k where "k = nat (52 - max (ilog2 x) (- 1022))"
  have e: "max (ilog2 x) (- 1022) - 52 = - int k"
    using \<open>ilog2 x < 16\<close> by (simp add: k_def)
  have u: "pow2 (- int k) = 1 / 2 ^ k" by (simp add: pow2_def)
  have "fp_round 53 (- 1022) x = of_int (round_even (x / pow2 (- int k))) * pow2 (- int k)"
    using x by (simp add: fp_round_def Let_def e)
  also have "x / pow2 (- int k) = of_int (int n * 2 ^ k)" by (simp add: x_def u)
  also have "round_even (of_int (int n * 2 ^ k)) = int n * 2 ^ k" by (rule round_even_of_int)
  also have "of_int (int n * 2 ^ k) * pow2 (- int k) = x" by (simp add: u x_def)
  finally show ?thesis by (simp add: f64_round_def x_def)
qed

lemma cardinal_val_eq: "cardinal_val angle = Inr ((4 * uint angle + 45) div 90)"
proof -
  define a where "a = int (unat angle)"
  have ua: "unat angle < 65536" using unsigned_less[of angle] by simp
  then have a: "0 \<le> a" "a < 65536" by (simp_all add: a_def del: of_nat_unat)
  define n where "n = (4 * a + 45) div 90"
  define r where "r = (4 * a + 45) mod 90"
  have r: "1 \<le> r" "r \<le> 89" 
  proof -
    have "odd (4 * a + 45)" by simp
    then have "r \<noteq> 0" unfolding r_def by presburger
    moreover have "0 \<le> r" "r < 90" by (simp_all add: r_def)
    ultimately show "1 \<le> r" "r \<le> 89" by linarith+
  qed
  have nr: "4 * a + 45 = 90 * n + r" by (simp add: n_def r_def)
  have n: "0 \<le> n" "n < 4096" using a by (simp_all add: n_def) 
  define x0 :: rat where "x0 = of_int a / (45 / 2)"
  have x0: "x0 + 1 / 2 = of_int n + of_int r / 90"
  proof -
    have "x0 + 1 / 2 = of_int (4 * a + 45) / 90" by (simp add: x0_def field_simps)
    also have "\<dots> = of_int n + of_int r / 90" by (simp only: nr) (simp add: field_simps)
    finally show ?thesis .
  qed
  have x0b: "0 \<le> x0" "x0 < 4000" using a by (simp_all add: x0_def field_simps)
  have conv: "f64_of_u16 angle = of_int a"
    using f64_round_of_nat[OF ua] by (simp add: f64_of_u16_def a_def del: of_nat_unat)
  define eps :: rat where "eps = 1 / 2 ^ 42"
  have eps: "0 < eps" "eps < 1 / 180" by (simp_all add: eps_def)
  define x1 where "x1 = f64_round x0"
  have e1: "\<bar>x1 - x0\<bar> \<le> eps"
    unfolding x1_def eps_def using x0b by (intro f64_round_err_4096) simp_all
  have x1b: "0 \<le> x1 + 1 / 2" "x1 + 1 / 2 < 4096"
    using e1 x0b eps by linarith+
  define x2 where "x2 = f64_round (x1 + 1 / 2)"
  have e2: "\<bar>x2 - (x1 + 1 / 2)\<bar> \<le> eps"
    unfolding x2_def eps_def using x1b by (intro f64_round_err_4096)
  have rr: "(1::rat) / 90 \<le> of_int r / 90" "of_int r / 90 \<le> (89::rat) / 90"
    using r by simp_all
  have lo: "of_int n \<le> x2" using e1 e2 x0 rr eps by linarith
  have hi: "x2 < of_int n + 1" using e1 e2 x0 rr eps by linarith
  have fl: "\<lfloor>x2\<rfloor> = n" using lo hi by linarith
  have "0 \<le> x2" using lo n by linarith
  have val: "f64_add (f64_div (f64_of_u16 angle) (f64_lit (45 / 2))) (f64_lit (1 / 2)) = x2"
    by (simp add: f64_add_def f64_div_def conv f64_lit_22_5 f64_lit_half x2_def x1_def x0_def)
  show ?thesis
    unfolding cardinal_val_def val double_to_int_def using \<open>0 \<le> x2\<close> fl n
    by (simp add: n_def a_def)
qed

lemma c_rem_16: "0 \<le> v \<Longrightarrow> c_rem v 16 = v mod 16"
  by (simp add: c_rem_def)

lemma cardinal_direction_index:
  "cmps12_get_cardinal_direction angle =
     Inr (directions ! nat ((4 * uint angle + 45) div 90 mod 16))"
proof -
  have v: "0 \<le> (4 * uint angle + 45) div 90" by (simp add: pos_imp_zdiv_nonneg_iff)
  have "(4 * uint angle + 45) div 90 mod 16 < 16" by simp
  then show ?thesis
    unfolding cmps12_get_cardinal_direction_def cardinal_val_eq
    by (simp add: c_rem_16[OF v] directions_def)
qed

lemma round_angle: "round (of_nat a / (45 / 2) :: rat) = (4 * int a + 45) div 90"
proof -
  have "of_nat a / (45 / 2) + 1 / 2 = (of_int (4 * int a + 45) :: rat) / of_int 90"
    by (simp add: field_simps)
  then show ?thesis
    unfolding round_def by (simp only: floor_divide_of_int_eq)
qed

lemma i2c_read_blocking_simp:
  "i2c_read_blocking p a n ns w =
     ((fst (respond w (I2C_Read p a n ns # trace w)),
       take n (snd (respond w (I2C_Read p a n ns # trace w)) @ replicate n 0)),
      w\<lparr>trace := I2C_Read p a n ns # trace w\<rparr>)"
  by (simp add: i2c_read_blocking_def Let_def)

section \<open>VEML7700: transport and evaluation lemmas\<close>

lemmas status_defs = VEML7700_OK_def VEML7700_ERROR_INIT_def VEML7700_ERROR_I2C_TX_def
  VEML7700_ERROR_I2C_RX_def VEML7700_ERROR_CONFIG_def VEML7700_ERROR_INVALID_ARG_def


lemma i2c_write_blocking_simp:
  "i2c_write_blocking p a bs ns w =
     (fst (respond w (I2C_Write p a bs ns # trace w)), w\<lparr>trace := I2C_Write p a bs ns # trace w\<rparr>)"
  by (simp add: i2c_write_blocking_def Let_def)

lemma write_reg_initialized:
  "initialized s \<Longrightarrow>
   veml7700_write_reg (Some s) reg data w =
     (if fst (i2c_write_blocking (i2c_port s) VEML7700_I2C_ADDRESS
               [reg, ucast (data AND 0xFF), ucast (drop_bit 8 data AND 0xFF)] False w) = 3
      then VEML7700_OK else VEML7700_ERROR_I2C_TX,
      snd (i2c_write_blocking (i2c_port s) VEML7700_I2C_ADDRESS
               [reg, ucast (data AND 0xFF), ucast (drop_bit 8 data AND 0xFF)] False w))"
  by (simp add: veml7700_write_reg_def Let_def split: prod.splits)

lemma read_reg_initialized:
  "initialized s \<Longrightarrow>
   veml7700_read_reg (Some s) reg Valid w =
     (let r1 = i2c_write_blocking (i2c_port s) VEML7700_I2C_ADDRESS [reg] True w;
          r2 = i2c_read_blocking (i2c_port s) VEML7700_I2C_ADDRESS 2 False (snd r1)
      in if fst r1 \<noteq> 1 then (VEML7700_ERROR_I2C_TX, None, snd r1)
         else if fst (fst r2) \<noteq> 2 then (VEML7700_ERROR_I2C_RX, None, snd r2)
         else (VEML7700_OK,
               Some (push_bit 8 (ucast (snd (fst r2) ! 1)) OR ucast (snd (fst r2) ! 0)), snd r2))"
  by (simp add: veml7700_read_reg_def Let_def split: prod.splits)

lemma write_reg_trace:
  "initialized s \<Longrightarrow>
   length (trace (snd (veml7700_write_reg (Some s) reg data w))) = Suc (length (trace w))"
  by (simp add: write_reg_initialized i2c_write_blocking_simp)

lemma write_reg_status:
  "initialized s \<Longrightarrow> fst (veml7700_write_reg (Some s) reg data w) \<noteq> VEML7700_ERROR_INIT"
  by (simp add: write_reg_initialized VEML7700_OK_def VEML7700_ERROR_I2C_TX_def
        VEML7700_ERROR_INIT_def)

lemma word16_of_bytes: 
  "push_bit 8 (ucast (ucast (drop_bit 8 v) :: 8 word)) OR ucast (ucast v :: 8 word) = (v :: 16 word)"
  by (rule bit_word_eqI) (auto simp: bit_simps)

lemma read_reg_device_bus:
  "initialized s \<Longrightarrow>
   veml7700_read_reg (Some s) reg Valid (\<lparr>respond = device_respond regs, trace = tr, slept_ms = n\<rparr>) =
     (VEML7700_OK, Some (regs reg),
      \<lparr>respond = device_respond regs,
       trace = I2C_Read (i2c_port s) VEML7700_I2C_ADDRESS 2 False
               # I2C_Write (i2c_port s) VEML7700_I2C_ADDRESS [reg] True # tr,
       slept_ms = n\<rparr>)"
  by (simp add: read_reg_initialized i2c_write_blocking_simp i2c_read_blocking_simp
        device_respond_def Let_def word16_of_bytes)

lemma write_reg_device_bus:
  "initialized s \<Longrightarrow>
   veml7700_write_reg (Some s) reg data (\<lparr>respond = device_respond regs, trace = tr, slept_ms = n\<rparr>) =
     (VEML7700_OK,
      \<lparr>respond = device_respond regs,
       trace = I2C_Write (i2c_port s) VEML7700_I2C_ADDRESS
                 [reg, ucast (data AND 0xFF), ucast (drop_bit 8 data AND 0xFF)] False # tr,
       slept_ms = n\<rparr>)"
  by (simp add: write_reg_initialized i2c_write_blocking_simp device_respond_def)

lemma init_conf_write_fails:
  assumes "veml7700_read_reg (Some (s\<lparr>i2c_port := Some p, initialized := True\<rparr>))
             VEML7700_REG_ID Valid w = (VEML7700_OK, Some device_id, w1)"
    and "device_id AND 0xFF = 0x81 \<or> drop_bit 8 device_id = 0x28"
    and "fst (i2c_write_blocking (Some p) VEML7700_I2C_ADDRESS
                [VEML7700_REG_ALS_CONF, 0, 0] False w1) \<noteq> 3"
  shows "veml7700_init (Some s) (Some p) sda_pin scl_pin baudrate w =
           (VEML7700_ERROR_I2C_TX,
            Some (s\<lparr>i2c_port := Some p, initialized := False,
                    current_gain := VEML7700_GAIN_1, current_it := VEML7700_IT_100MS,
                    config_cache := 0\<rparr>),
            snd (i2c_write_blocking (Some p) VEML7700_I2C_ADDRESS
                   [VEML7700_REG_ALS_CONF, 0, 0] False w1))"
  using assms
  by (auto simp add: veml7700_init_def local_u16_def Let_def write_reg_initialized
        VEML7700_GAIN_1_def VEML7700_IT_100MS_def VEML7700_PERS_1_def status_defs
        split: prod.splits)

text \<open>A complete run of \<^verbatim>\<open>veml7700_init\<close> on a device whose ID is 0x0081.\<close>

lemma init_example:
  "veml7700_init (Some sensor_uninit) (Some 1) 4 5 100000 (device_bus (id_regs 0x0081)) =
     (VEML7700_OK,
      Some \<lparr>i2c_port = Some 1, config_cache = 0, psm_cache = 0, initialized = True,
            current_gain = VEML7700_GAIN_1, current_it = VEML7700_IT_100MS\<rparr>,
      \<lparr>respond = device_respond (id_regs 0x0081),
       trace = [I2C_Write (Some 1) VEML7700_I2C_ADDRESS [VEML7700_REG_ALS_WL, 0, 0] False,
                I2C_Write (Some 1) VEML7700_I2C_ADDRESS [VEML7700_REG_ALS_WH, 0xFF, 0xFF] False,
                I2C_Write (Some 1) VEML7700_I2C_ADDRESS [VEML7700_REG_POWER_SAVING, 0, 0] False,
                I2C_Write (Some 1) VEML7700_I2C_ADDRESS [VEML7700_REG_ALS_CONF, 0, 0] False,
                I2C_Read (Some 1) VEML7700_I2C_ADDRESS 2 False,
                I2C_Write (Some 1) VEML7700_I2C_ADDRESS [VEML7700_REG_ID] True],
       slept_ms = 10\<rparr>)"
  by (simp add: veml7700_init_def device_bus_def read_reg_device_bus write_reg_device_bus
        id_regs_def local_u16_def sleep_ms_def sensor_uninit_def sensor0_def status_defs
        VEML7700_GAIN_1_def VEML7700_IT_100MS_def VEML7700_PERS_1_def)




text \<open>
  The binary32 values of the resolution formula. On the enumerators the two quotients are
  powers of two, so every product is exact and the result is the binary32 value of 0.0042
  scaled by a power of two between 1 and 512.
\<close>

lemma f32_base: "f32_lit (42 / 10000) = 9019431 / 2147483648"
  by code_simp

lemma gain_val_values:
  "gain_val VEML7700_GAIN_1_8 = 1 / 8" "gain_val VEML7700_GAIN_1_4 = 1 / 4"
  "gain_val VEML7700_GAIN_1 = 1" "gain_val VEML7700_GAIN_2 = 2"
  by code_simp+

lemma it_val_values:
  "it_val VEML7700_IT_25MS = 25" "it_val VEML7700_IT_50MS = 50" "it_val VEML7700_IT_100MS = 100"
  "it_val VEML7700_IT_200MS = 200" "it_val VEML7700_IT_400MS = 400" "it_val VEML7700_IT_800MS = 800"
  by code_simp+

lemma resolution_table:
  "veml7700_get_resolution VEML7700_GAIN_1_8 VEML7700_IT_25MS = 512 * f32_lit (42 / 10000)"
  "veml7700_get_resolution VEML7700_GAIN_1_8 VEML7700_IT_50MS = 256 * f32_lit (42 / 10000)"
  "veml7700_get_resolution VEML7700_GAIN_1_8 VEML7700_IT_100MS = 128 * f32_lit (42 / 10000)"
  "veml7700_get_resolution VEML7700_GAIN_1_8 VEML7700_IT_200MS = 64 * f32_lit (42 / 10000)"
  "veml7700_get_resolution VEML7700_GAIN_1_8 VEML7700_IT_400MS = 32 * f32_lit (42 / 10000)"
  "veml7700_get_resolution VEML7700_GAIN_1_8 VEML7700_IT_800MS = 16 * f32_lit (42 / 10000)"
  "veml7700_get_resolution VEML7700_GAIN_1_4 VEML7700_IT_25MS = 256 * f32_lit (42 / 10000)"
  "veml7700_get_resolution VEML7700_GAIN_1_4 VEML7700_IT_50MS = 128 * f32_lit (42 / 10000)"
  "veml7700_get_resolution VEML7700_GAIN_1_4 VEML7700_IT_100MS = 64 * f32_lit (42 / 10000)"
  "veml7700_get_resolution VEML7700_GAIN_1_4 VEML7700_IT_200MS = 32 * f32_lit (42 / 10000)"
  "veml7700_get_resolution VEML7700_GAIN_1_4 VEML7700_IT_400MS = 16 * f32_lit (42 / 10000)"
  "veml7700_get_resolution VEML7700_GAIN_1_4 VEML7700_IT_800MS = 8 * f32_lit (42 / 10000)"
  "veml7700_get_resolution VEML7700_GAIN_1 VEML7700_IT_25MS = 64 * f32_lit (42 / 10000)"
  "veml7700_get_resolution VEML7700_GAIN_1 VEML7700_IT_50MS = 32 * f32_lit (42 / 10000)"
  "veml7700_get_resolution VEML7700_GAIN_1 VEML7700_IT_100MS = 16 * f32_lit (42 / 10000)"
  "veml7700_get_resolution VEML7700_GAIN_1 VEML7700_IT_200MS = 8 * f32_lit (42 / 10000)"
  "veml7700_get_resolution VEML7700_GAIN_1 VEML7700_IT_400MS = 4 * f32_lit (42 / 10000)"
  "veml7700_get_resolution VEML7700_GAIN_1 VEML7700_IT_800MS = 2 * f32_lit (42 / 10000)"
  "veml7700_get_resolution VEML7700_GAIN_2 VEML7700_IT_25MS = 32 * f32_lit (42 / 10000)"
  "veml7700_get_resolution VEML7700_GAIN_2 VEML7700_IT_50MS = 16 * f32_lit (42 / 10000)"
  "veml7700_get_resolution VEML7700_GAIN_2 VEML7700_IT_100MS = 8 * f32_lit (42 / 10000)"
  "veml7700_get_resolution VEML7700_GAIN_2 VEML7700_IT_200MS = 4 * f32_lit (42 / 10000)"
  "veml7700_get_resolution VEML7700_GAIN_2 VEML7700_IT_400MS = 2 * f32_lit (42 / 10000)"
  "veml7700_get_resolution VEML7700_GAIN_2 VEML7700_IT_800MS = 1 * f32_lit (42 / 10000)"
  by code_simp+

lemma resolution_formula:
  assumes "valid_gain g" "valid_it t"
  shows "veml7700_get_resolution g t = f32_lit (42 / 10000) * (2 / gain_val g) * (800 / it_val t)"
  using assms unfolding valid_gain_def valid_it_def
  by (elim disjE) (simp_all add: resolution_table gain_val_values it_val_values)

lemma gain_val_pos: "valid_gain g \<Longrightarrow> 0 < gain_val g \<and> gain_val g \<le> 2 \<and> 1 / 8 \<le> gain_val g"
  unfolding valid_gain_def by (elim disjE) (simp_all add: gain_val_values)

lemma it_val_pos: "valid_it t \<Longrightarrow> 0 < it_val t \<and> it_val t \<le> 800 \<and> 25 \<le> it_val t"
  unfolding valid_it_def by (elim disjE) (simp_all add: it_val_values)

lemma spec_gain_factor_values:
  "spec_gain_factor VEML7700_GAIN_1_8 = 1 / 8" "spec_gain_factor VEML7700_GAIN_1_4 = 1 / 4"
  "spec_gain_factor VEML7700_GAIN_1 = 1" "spec_gain_factor VEML7700_GAIN_2 = 2"
  by (simp_all add: spec_gain_factor_def VEML7700_GAIN_1_def VEML7700_GAIN_2_def
        VEML7700_GAIN_1_8_def VEML7700_GAIN_1_4_def)

lemma spec_it_ms_values:
  "spec_it_ms VEML7700_IT_25MS = 25" "spec_it_ms VEML7700_IT_50MS = 50"
  "spec_it_ms VEML7700_IT_100MS = 100" "spec_it_ms VEML7700_IT_200MS = 200"
  "spec_it_ms VEML7700_IT_400MS = 400" "spec_it_ms VEML7700_IT_800MS = 800"
  by (simp_all add: spec_it_ms_def VEML7700_IT_25MS_def VEML7700_IT_50MS_def
        VEML7700_IT_100MS_def VEML7700_IT_200MS_def VEML7700_IT_400MS_def VEML7700_IT_800MS_def)

lemma gain_val_spec: "valid_gain g \<Longrightarrow> gain_val g = spec_gain_factor g"
  unfolding valid_gain_def
  by (elim disjE) (simp_all only: gain_val_values spec_gain_factor_values)

lemma it_val_spec: "valid_it t \<Longrightarrow> it_val t = spec_it_ms t"
  unfolding valid_it_def
  by (elim disjE) (simp_all only: it_val_values spec_it_ms_values)

lemma f32_top_value: "f32_lit (21504 / 10000) = 9019431 / 4194304"
  by code_simp


section \<open>Claims about the CMPS12 driver\<close>

text \<open>
  Claim C9. \<^verbatim>\<open>cmps12_get_cardinal_direction\<close> is total on every 16-bit input: the
  conversion to \<^verbatim>\<open>int\<close> is in range, the index \<open>val % 16\<close> lies in 0..15, the
  table is read inside its bounds and one of its sixteen strings is returned.
\<close>

theorem cardinal_direction_total:
  "\<exists>val. cardinal_val angle = Inr val \<and> 0 \<le> c_rem val 16 \<and> c_rem val 16 \<le> 15 \<and>
     cmps12_get_cardinal_direction angle = Inr (directions ! nat (c_rem val 16)) \<and>
     directions ! nat (c_rem val 16) \<in> set directions"
proof -
  define val where "val = (4 * uint angle + 45) div 90"
  have v: "0 \<le> val" by (simp add: val_def pos_imp_zdiv_nonneg_iff)
  have r: "c_rem val 16 = val mod 16" using v by (rule c_rem_16)
  have b: "0 \<le> val mod 16" "val mod 16 \<le> 15" by simp_all
  have l: "nat (val mod 16) < length directions" using b by (simp add: directions_def)
  have 1: "cardinal_val angle = Inr val" by (simp only: cardinal_val_eq val_def)
  have 2: "0 \<le> c_rem val 16" "c_rem val 16 \<le> 15" using b by (simp_all only: r)
  have 3: "cmps12_get_cardinal_direction angle = Inr (directions ! nat (c_rem val 16))"
    unfolding r by (simp only: cardinal_direction_index val_def)
  have 4: "directions ! nat (c_rem val 16) \<in> set directions"
    unfolding r using l by (rule nth_mem)
  from 1 2 3 4 show ?thesis by blast
qed

theorem cardinal_direction_total_witness:
  "cmps12_get_cardinal_direction 65535 = Inr ''NNE''"
  using cardinal_direction_total[of 65535]
  by (auto simp: cardinal_val_eq c_rem_def directions_def)

text \<open>
  Claim C7. For every integer angle from 0 to 359 degrees the function returns the entry
  at index \<open>round(angle / 22.5) mod 16\<close> of the sixteen-point table N, NNE, NE, ENE,
  E, ESE, SE, SSE, S, SSW, SW, WSW, W, WNW, NW, NNW.
\<close>

theorem cardinal_direction_table:
  "unat angle \<le> 359 \<Longrightarrow>
     cmps12_get_cardinal_direction angle =
       Inr ([''N'', ''NNE'', ''NE'', ''ENE'', ''E'', ''ESE'', ''SE'', ''SSE'',
             ''S'', ''SSW'', ''SW'', ''WSW'', ''W'', ''WNW'', ''NW'', ''NNW'']
            ! spec_cardinal_index (unat angle))"
  unfolding cardinal_direction_index spec_cardinal_index_def round_angle directions_def
  by (simp only: uint_nat)

theorem cardinal_direction_table_witness:
  "unat (90 :: 16 word) \<le> 359 \<and> spec_cardinal_index (unat (90 :: 16 word)) = 4 \<and>
   cmps12_get_cardinal_direction 90 = Inr ''E'' \<and>
   unat (0 :: 16 word) \<le> 359 \<and> spec_cardinal_index (unat (0 :: 16 word)) = 0 \<and>
   cmps12_get_cardinal_direction 0 = Inr ''N'' \<and>
   unat (337 :: 16 word) \<le> 359 \<and> spec_cardinal_index (unat (337 :: 16 word)) = 15 \<and>
   cmps12_get_cardinal_direction 337 = Inr ''NNW''"
proof -
  have i: "spec_cardinal_index (unat (90 :: 16 word)) = 4"
    "spec_cardinal_index (unat (0 :: 16 word)) = 0"
    "spec_cardinal_index (unat (337 :: 16 word)) = 15"
    unfolding spec_cardinal_index_def round_angle by simp_all
  have b: "unat (90 :: 16 word) \<le> 359" "unat (0 :: 16 word) \<le> 359"
    "unat (337 :: 16 word) \<le> 359"
    by simp_all
  show ?thesis
    using i b cardinal_direction_table[OF b(1)] cardinal_direction_table[OF b(2)]
      cardinal_direction_table[OF b(3)]
    by (simp only: i) simp
qed

text \<open>
  Claim C4, as stated: the mapping counts the angle in tenths of a degree, so that 225 is
  the first input mapped to NNE. The function counts whole degrees: 225 is mapped to SW,
  and the output changes from N to NNE between 11 and 12.
\<close>

theorem cardinal_transition_counterexample:
  "cmps12_get_cardinal_direction 225 = Inr ''SW'' \<and>
   cmps12_get_cardinal_direction 11 = Inr ''N'' \<and>
   cmps12_get_cardinal_direction 12 = Inr ''NNE''"
  by (simp add: cardinal_direction_index directions_def)

text \<open>
  Claim C4, amended. The mapping takes whole degrees and is cyclic with period 360,
  hence also with period 3600: inputs 0 and 3600 both give N; every input below 12
  gives N and 12 is the first input that gives NNE.
\<close>

theorem cardinal_direction_degrees:
  "(unat angle + 360 < 65536 \<longrightarrow>
      cmps12_get_cardinal_direction (angle + 360) = cmps12_get_cardinal_direction angle) \<and>
   (unat angle + 3600 < 65536 \<longrightarrow>
      cmps12_get_cardinal_direction (angle + 3600) = cmps12_get_cardinal_direction angle) \<and>
   cmps12_get_cardinal_direction 0 = Inr ''N'' \<and>
   cmps12_get_cardinal_direction 3600 = Inr ''N'' \<and>
   (unat angle < 12 \<longrightarrow> cmps12_get_cardinal_direction angle = Inr ''N'') \<and>
   cmps12_get_cardinal_direction 12 = Inr ''NNE''"
proof -
  have p360: "cmps12_get_cardinal_direction (angle + 360) = cmps12_get_cardinal_direction angle"
    if "unat angle + 360 < 65536"
  proof -
    have "unat (angle + 360) = unat angle + 360"
      using that by (simp add: unat_word_ariths)
    then have "uint (angle + 360) = uint angle + 360"
      by (simp add: uint_nat del: of_nat_unat)
    moreover have "(4 * (uint angle + 360) + 45) div 90 = 16 * 1 + (4 * uint angle + 45) div 90"
      using div_mult_self2[of 90 "4 * uint angle + 45" "16"] by (simp add: algebra_simps)
    then have "(4 * (uint angle + 360) + 45) div 90 mod 16 = (4 * uint angle + 45) div 90 mod 16"
      by (simp only: mod_mult_self4)
    ultimately show ?thesis by (simp only: cardinal_direction_index)
  qed
  have p3600: "cmps12_get_cardinal_direction (angle + 3600) = cmps12_get_cardinal_direction angle"
    if "unat angle + 3600 < 65536"
  proof -
    have "unat (angle + 3600) = unat angle + 3600"
      using that by (simp add: unat_word_ariths)
    then have "uint (angle + 3600) = uint angle + 3600"
      by (simp add: uint_nat del: of_nat_unat)
    moreover have "(4 * (uint angle + 3600) + 45) div 90 = 16 * 10 + (4 * uint angle + 45) div 90"
      using div_mult_self2[of 90 "4 * uint angle + 45" "160"] by (simp add: algebra_simps)
    then have "(4 * (uint angle + 3600) + 45) div 90 mod 16 = (4 * uint angle + 45) div 90 mod 16"
      by (simp only: mod_mult_self4)
    ultimately show ?thesis by (simp only: cardinal_direction_index)
  qed
  have north: "cmps12_get_cardinal_direction angle = Inr ''N''" if "unat angle < 12"
  proof -
    have "uint angle < 12" "0 \<le> uint angle" using that by (simp_all add: uint_nat del: of_nat_unat)
    then have "(4 * uint angle + 45) div 90 = 0" by simp
    then show ?thesis by (simp add: cardinal_direction_index directions_def)
  qed
  show ?thesis
    using p360 p3600 north by (simp add: cardinal_direction_index directions_def)
qed

theorem cardinal_direction_degrees_witness:
  "unat (5 :: 16 word) + 360 < 65536 \<and> unat (5 :: 16 word) + 3600 < 65536 \<and> unat (5 :: 16 word) < 12 \<and>
   cmps12_get_cardinal_direction (5 + 360) = cmps12_get_cardinal_direction 5 \<and>
   cmps12_get_cardinal_direction (5 + 3600) = cmps12_get_cardinal_direction 5 \<and>
   cmps12_get_cardinal_direction 5 = Inr ''N''"
  using cardinal_direction_degrees[of 5] by simp

text \<open>
  Claim C10. \<^verbatim>\<open>cmps12_init\<close> stores the bus handle and zeroes \<open>angle8\<close>,
  \<open>angle16\<close>, \<open>pitch\<close> and \<open>roll\<close> whatever the presence probe returns; its
  boolean result alone tells whether the probe succeeded, and a failed probe leaves the
  struct in the reset state.
\<close>

theorem cmps12_init_resets:
  "cmps12_init compass p w =
     (0 \<le> fst (respond w (I2C_Read p CMPS12_ADDRESS 1 False # trace w)),
      compass\<lparr>i2c := p, angle8 := 0, angle16 := 0, pitch := 0, roll := 0\<rparr>,
      w\<lparr>trace := I2C_Read p CMPS12_ADDRESS 1 False # trace w\<rparr>)"
  by (simp add: cmps12_init_def i2c_read_blocking_simp)

theorem cmps12_init_resets_witness:
  "cmps12_init \<lparr>i2c = None, angle8 = 7, angle16 = 1280, pitch = 3, roll = 4\<rparr> (Some 0) dead_bus =
     (False,
      \<lparr>i2c = Some 0, angle8 = 0, angle16 = 0, pitch = 0, roll = 0\<rparr>,
      dead_bus\<lparr>trace := [I2C_Read (Some 0) CMPS12_ADDRESS 1 False]\<rparr>)"
  using cmps12_init_resets
          [of "\<lparr>i2c = None, angle8 = 7, angle16 = 1280, pitch = 3, roll = 4\<rparr>" "Some 0" dead_bus]
  by (simp add: dead_bus_def)

section \<open>Claims about the VEML7700 driver\<close>

text \<open>
  Claim C8. In the register-transport helpers a negative result of the bus call, or a
  byte count other than the one requested (3 for a register write, 1 for the register
  pointer, 2 for the data read), gives \<^verbatim>\<open>VEML7700_ERROR_I2C_TX\<close> in a write
  phase and \<^verbatim>\<open>VEML7700_ERROR_I2C_RX\<close> in the read phase; only the exact count
  gives \<^verbatim>\<open>VEML7700_OK\<close>.
\<close>

theorem transport_byte_count:
  assumes "initialized s"
  shows "(let (r, w1) = i2c_write_blocking (i2c_port s) VEML7700_I2C_ADDRESS
                          [reg, ucast (data AND 0xFF), ucast (drop_bit 8 data AND 0xFF)] False w
          in veml7700_write_reg (Some s) reg data w =
               (if r < 0 \<or> r \<noteq> 3 then VEML7700_ERROR_I2C_TX else VEML7700_OK, w1)) \<and>
         (let (r1, w1) = i2c_write_blocking (i2c_port s) VEML7700_I2C_ADDRESS [reg] True w;
              ((r2, buffer), w2) = i2c_read_blocking (i2c_port s) VEML7700_I2C_ADDRESS 2 False w1
          in veml7700_read_reg (Some s) reg Valid w =
               (if r1 < 0 \<or> r1 \<noteq> 1 then (VEML7700_ERROR_I2C_TX, None, w1)
                else if r2 < 0 \<or> r2 \<noteq> 2 then (VEML7700_ERROR_I2C_RX, None, w2)
                else (VEML7700_OK,
                      Some (push_bit 8 (ucast (buffer ! 1)) OR ucast (buffer ! 0)), w2)))"
  using assms
  by (auto simp: write_reg_initialized read_reg_initialized Let_def split: prod.splits)

theorem transport_byte_count_witness:
  "initialized sensor0 \<and>
   fst (veml7700_write_reg (Some sensor0) VEML7700_REG_ALS_WH 0x1234 (fixed_bus 3)) = VEML7700_OK \<and>
   fst (veml7700_write_reg (Some sensor0) VEML7700_REG_ALS_WH 0x1234 (fixed_bus 2)) = VEML7700_ERROR_I2C_TX \<and>
   fst (veml7700_write_reg (Some sensor0) VEML7700_REG_ALS_WH 0x1234 (fixed_bus (- 1))) = VEML7700_ERROR_I2C_TX \<and>
   fst (veml7700_read_reg (Some sensor0) VEML7700_REG_ALS Valid (fixed_bus 0)) = VEML7700_ERROR_I2C_TX \<and>
   fst (veml7700_read_reg (Some sensor0) VEML7700_REG_ALS Valid (fixed_bus 1)) = VEML7700_ERROR_I2C_RX \<and>
   veml7700_read_reg (Some sensor0) VEML7700_REG_ALS Valid (device_bus (\<lambda>r. 0x1234)) =
     (VEML7700_OK, Some 0x1234,
      (device_bus (\<lambda>r. 0x1234))
        \<lparr>trace := [I2C_Read (Some 0) VEML7700_I2C_ADDRESS 2 False,
                   I2C_Write (Some 0) VEML7700_I2C_ADDRESS [VEML7700_REG_ALS] True]\<rparr>)"
proof -
  have i: "initialized sensor0" by (simp add: sensor0_def)
  show ?thesis
    using i
      transport_byte_count[OF i, of VEML7700_REG_ALS_WH "0x1234" "fixed_bus 3"]
      transport_byte_count[OF i, of VEML7700_REG_ALS_WH "0x1234" "fixed_bus 2"]
      transport_byte_count[OF i, of VEML7700_REG_ALS_WH "0x1234" "fixed_bus (- 1)"]
      transport_byte_count[OF i, of VEML7700_REG_ALS "0" "fixed_bus 0"]
      transport_byte_count[OF i, of VEML7700_REG_ALS "0" "fixed_bus 1"]
      transport_byte_count[OF i, of VEML7700_REG_ALS "0" "device_bus (\<lambda>r. 0x1234)"]
    by (simp add: i2c_write_blocking_simp i2c_read_blocking_simp fixed_bus_def device_bus_def
          device_respond_def sensor0_def VEML7700_OK_def VEML7700_ERROR_I2C_TX_def
          VEML7700_ERROR_I2C_RX_def)
qed

text \<open>
  Claim C5. Every driver operation that takes an initialised handle (all entry points
  but \<^verbatim>\<open>veml7700_init\<close>, and the two transport helpers), called on a null handle
  or on a handle that is not initialised, returns \<^verbatim>\<open>VEML7700_ERROR_CONFIG\<close>,
  stores nothing, and leaves the handle and the hardware, with its list of bus
  transactions, as they were.
\<close>

theorem uninitialized_rejected:
  assumes "handle_unusable sensor"
  shows "veml7700_read_als sensor p w = (VEML7700_ERROR_CONFIG, None, w) \<and>
         veml7700_read_white sensor p w = (VEML7700_ERROR_CONFIG, None, w) \<and>
         veml7700_read_lux sensor p w = (VEML7700_ERROR_CONFIG, None, sensor, w) \<and>
         veml7700_set_gain sensor gain w = (VEML7700_ERROR_CONFIG, sensor, w) \<and>
         veml7700_set_integration_time sensor it w = (VEML7700_ERROR_CONFIG, sensor, w) \<and>
         veml7700_set_persistence sensor pers w = (VEML7700_ERROR_CONFIG, sensor, w) \<and>
         veml7700_enable_interrupt sensor enable w = (VEML7700_ERROR_CONFIG, sensor, w) \<and>
         veml7700_set_high_threshold sensor threshold w = (VEML7700_ERROR_CONFIG, sensor, w) \<and>
         veml7700_set_low_threshold sensor threshold w = (VEML7700_ERROR_CONFIG, sensor, w) \<and>
         veml7700_read_interrupt_status sensor p w = (VEML7700_ERROR_CONFIG, None, w) \<and>
         veml7700_enable_power_saving sensor enable w = (VEML7700_ERROR_CONFIG, sensor, w) \<and>
         veml7700_set_power_saving_mode sensor psm w = (VEML7700_ERROR_CONFIG, sensor, w) \<and>
         veml7700_power_on sensor w = (VEML7700_ERROR_CONFIG, sensor, w) \<and>
         veml7700_shutdown sensor w = (VEML7700_ERROR_CONFIG, sensor, w) \<and>
         veml7700_read_device_id sensor p w = (VEML7700_ERROR_CONFIG, None, w) \<and>
         veml7700_write_reg sensor reg data w = (VEML7700_ERROR_CONFIG, w) \<and>
         veml7700_read_reg sensor reg p w = (VEML7700_ERROR_CONFIG, None, w)"
proof (cases sensor)
  case None
  then show ?thesis
    by (simp add: veml7700_read_als_def veml7700_read_white_def veml7700_read_lux_def
          veml7700_set_gain_def veml7700_set_integration_time_def veml7700_set_persistence_def
          veml7700_enable_interrupt_def veml7700_set_high_threshold_def
          veml7700_set_low_threshold_def veml7700_read_interrupt_status_def
          veml7700_enable_power_saving_def veml7700_set_power_saving_mode_def
          veml7700_power_on_def veml7700_shutdown_def veml7700_read_device_id_def
          veml7700_write_reg_def veml7700_read_reg_def)
next
  case (Some s)
  with assms have "\<not> initialized s" by (simp add: handle_unusable_def)
  with Some show ?thesis
    by (simp add: veml7700_read_als_def veml7700_read_white_def veml7700_read_lux_def
          veml7700_set_gain_def veml7700_set_integration_time_def veml7700_set_persistence_def
          veml7700_enable_interrupt_def veml7700_set_high_threshold_def
          veml7700_set_low_threshold_def veml7700_read_interrupt_status_def
          veml7700_enable_power_saving_def veml7700_set_power_saving_mode_def
          veml7700_power_on_def veml7700_shutdown_def veml7700_read_device_id_def
          veml7700_write_reg_def veml7700_read_reg_def)
qed

theorem uninitialized_rejected_witness:
  "handle_unusable None \<and> handle_unusable (Some sensor_uninit) \<and>
   veml7700_read_als None Valid (device_bus (\<lambda>r. 0)) = (VEML7700_ERROR_CONFIG, None, device_bus (\<lambda>r. 0)) \<and>
   veml7700_shutdown (Some sensor_uninit) (device_bus (\<lambda>r. 0)) =
     (VEML7700_ERROR_CONFIG, Some sensor_uninit, device_bus (\<lambda>r. 0)) \<and>
   trace (snd (snd (veml7700_set_gain (Some sensor_uninit) VEML7700_GAIN_2 (device_bus (\<lambda>r. 0))))) = []"
proof -
  have n: "handle_unusable None" by (simp add: handle_unusable_def)
  have u: "handle_unusable (Some sensor_uninit)"
    by (simp add: handle_unusable_def sensor_uninit_def)
  show ?thesis
    using n u
      uninitialized_rejected[OF n, of Valid "device_bus (\<lambda>r. 0)"]
      uninitialized_rejected[OF u, of _ "device_bus (\<lambda>r. 0)" VEML7700_GAIN_2]
    by (simp add: device_bus_def)
qed

text \<open>
  Claim C2. Once the device-ID read has succeeded, \<^verbatim>\<open>veml7700_init\<close> rejects the
  ID exactly when its low byte is not 0x81 and its high byte is not 0x28: it then returns
  \<^verbatim>\<open>VEML7700_ERROR_INIT\<close> with the handle marked uninitialised and no further bus
  transaction. When either byte matches it goes on to write the configuration, and its
  result is not \<^verbatim>\<open>VEML7700_ERROR_INIT\<close>.
\<close>

theorem init_device_id_check:
  assumes "veml7700_read_reg (Some (s\<lparr>i2c_port := Some p, initialized := True\<rparr>))
             VEML7700_REG_ID Valid w = (VEML7700_OK, Some device_id, w1)"
  shows "(device_id AND 0xFF \<noteq> 0x81 \<and> drop_bit 8 device_id \<noteq> 0x28 \<longrightarrow>
            veml7700_init (Some s) (Some p) sda_pin scl_pin baudrate w =
              (VEML7700_ERROR_INIT, Some (s\<lparr>i2c_port := Some p, initialized := False\<rparr>), w1)) \<and>
         (device_id AND 0xFF = 0x81 \<or> drop_bit 8 device_id = 0x28 \<longrightarrow>
            fst (veml7700_init (Some s) (Some p) sda_pin scl_pin baudrate w) \<noteq> VEML7700_ERROR_INIT \<and>
            length (trace w1)
              < length (trace (snd (snd (veml7700_init (Some s) (Some p) sda_pin scl_pin baudrate w)))))"
proof (intro conjI impI)
  assume "device_id AND 0xFF \<noteq> 0x81 \<and> drop_bit 8 device_id \<noteq> 0x28"
  then show "veml7700_init (Some s) (Some p) sda_pin scl_pin baudrate w =
              (VEML7700_ERROR_INIT, Some (s\<lparr>i2c_port := Some p, initialized := False\<rparr>), w1)"
    using assms by (simp add: veml7700_init_def local_u16_def)
next
  assume acc: "device_id AND 0xFF = 0x81 \<or> drop_bit 8 device_id = 0x28"
  define s6 where "s6 = s\<lparr>i2c_port := Some p, initialized := True,
      current_gain := VEML7700_GAIN_1, current_it := VEML7700_IT_100MS,
      config_cache := ucast (push_bit 11 VEML7700_GAIN_1 OR push_bit 6 VEML7700_IT_100MS
                             OR push_bit 4 VEML7700_PERS_1 OR push_bit 1 0 OR push_bit 0 0)\<rparr>"
  define s7 where "s7 = s6\<lparr>psm_cache := 0\<rparr>"
  have i: "initialized s6" "initialized s7" by (simp_all add: s6_def s7_def)
  note st = write_reg_status[OF i(1)] write_reg_status[OF i(2)]
  note tr = write_reg_trace[OF i(1)] write_reg_trace[OF i(2)]
  have eq: "veml7700_init (Some s) (Some p) sda_pin scl_pin baudrate w =
    (let r1 = veml7700_write_reg (Some s6) VEML7700_REG_ALS_CONF (config_cache s6) w1 in
     if fst r1 \<noteq> VEML7700_OK then (fst r1, Some (s6\<lparr>initialized := False\<rparr>), snd r1)
     else let r2 = veml7700_write_reg (Some s7) VEML7700_REG_POWER_SAVING (psm_cache s7) (snd r1) in
     if fst r2 \<noteq> VEML7700_OK then (fst r2, Some (s7\<lparr>initialized := False\<rparr>), snd r2)
     else let r3 = veml7700_write_reg (Some s7) VEML7700_REG_ALS_WH 0xFFFF (snd r2) in
     if fst r3 \<noteq> VEML7700_OK then (fst r3, Some (s7\<lparr>initialized := False\<rparr>), snd r3)
     else let r4 = veml7700_write_reg (Some s7) VEML7700_REG_ALS_WL 0 (snd r3) in
     if fst r4 \<noteq> VEML7700_OK then (fst r4, Some (s7\<lparr>initialized := False\<rparr>), snd r4)
     else (VEML7700_OK, Some (s7\<lparr>initialized := True\<rparr>), sleep_ms 10 (snd r4)))"
    using assms acc
    by (auto simp add: veml7700_init_def local_u16_def Let_def s6_def s7_def split: prod.splits)
  show "fst (veml7700_init (Some s) (Some p) sda_pin scl_pin baudrate w) \<noteq> VEML7700_ERROR_INIT"
    unfolding eq using st
    by (simp add: Let_def VEML7700_OK_def VEML7700_ERROR_INIT_def)
  show "length (trace w1)
          < length (trace (snd (snd (veml7700_init (Some s) (Some p) sda_pin scl_pin baudrate w))))"
    unfolding eq using tr
    by (simp add: Let_def sleep_ms_def)
qed

theorem init_device_id_check_witness:
  "veml7700_read_reg (Some (sensor_uninit\<lparr>i2c_port := Some 1, initialized := True\<rparr>))
      VEML7700_REG_ID Valid (device_bus (id_regs 0x1234)) =
     (VEML7700_OK, Some 0x1234,
      (device_bus (id_regs 0x1234))
         \<lparr>trace := [I2C_Read (Some 1) VEML7700_I2C_ADDRESS 2 False,
                    I2C_Write (Some 1) VEML7700_I2C_ADDRESS [VEML7700_REG_ID] True]\<rparr>) \<and>
   veml7700_init (Some sensor_uninit) (Some 1) 4 5 100000 (device_bus (id_regs 0x1234)) =
     (VEML7700_ERROR_INIT, Some (sensor_uninit\<lparr>i2c_port := Some 1, initialized := False\<rparr>),
      (device_bus (id_regs 0x1234))
         \<lparr>trace := [I2C_Read (Some 1) VEML7700_I2C_ADDRESS 2 False,
                    I2C_Write (Some 1) VEML7700_I2C_ADDRESS [VEML7700_REG_ID] True]\<rparr>) \<and>
   veml7700_read_reg (Some (sensor_uninit\<lparr>i2c_port := Some 1, initialized := True\<rparr>))
      VEML7700_REG_ID Valid (device_bus (id_regs 0x0081)) =
     (VEML7700_OK, Some 0x0081,
      (device_bus (id_regs 0x0081))
         \<lparr>trace := [I2C_Read (Some 1) VEML7700_I2C_ADDRESS 2 False,
                    I2C_Write (Some 1) VEML7700_I2C_ADDRESS [VEML7700_REG_ID] True]\<rparr>) \<and>
   fst (veml7700_init (Some sensor_uninit) (Some 1) 4 5 100000 (device_bus (id_regs 0x0081)))
     \<noteq> VEML7700_ERROR_INIT \<and>
   fst (veml7700_init (Some sensor_uninit) (Some 1) 4 5 100000 (device_bus (id_regs 0x0081)))
     = VEML7700_OK \<and>
   map_option initialized
     (fst (snd (veml7700_init (Some sensor_uninit) (Some 1) 4 5 100000
                  (device_bus (id_regs 0x0081))))) = Some True"
proof -
  have i: "initialized (sensor_uninit\<lparr>i2c_port := Some 1, initialized := True\<rparr>)" by simp
  have r: "veml7700_read_reg (Some (sensor_uninit\<lparr>i2c_port := Some 1, initialized := True\<rparr>))
      VEML7700_REG_ID Valid (device_bus (id_regs v)) =
     (VEML7700_OK, Some v,
      (device_bus (id_regs v))
         \<lparr>trace := [I2C_Read (Some 1) VEML7700_I2C_ADDRESS 2 False,
                    I2C_Write (Some 1) VEML7700_I2C_ADDRESS [VEML7700_REG_ID] True]\<rparr>)" for v
  proof -
    have "push_bit 8 (ucast (ucast (drop_bit 8 v) :: 8 word)) OR ucast (ucast v :: 8 word) = v"
      by (rule bit_word_eqI) (auto simp: bit_simps)
    then show ?thesis
      by (simp add: read_reg_initialized i2c_write_blocking_simp i2c_read_blocking_simp
          device_bus_def device_respond_def id_regs_def Let_def)
  qed
  have ok:
    "fst (veml7700_init (Some sensor_uninit) (Some 1) 4 5 100000 (device_bus (id_regs 0x0081)))
       = VEML7700_OK"
    "map_option initialized
       (fst (snd (veml7700_init (Some sensor_uninit) (Some 1) 4 5 100000
                    (device_bus (id_regs 0x0081))))) = Some True"
    unfolding init_example by simp_all
  show ?thesis
    using r[of "0x1234"] r[of "0x0081"] ok
      init_device_id_check[OF r[of "0x1234"], of 4 5 100000]
      init_device_id_check[OF r[of "0x0081"], of 4 5 100000]
    by simp
qed

text \<open>
  Claim C1, as stated: a setter whose register write fails leaves \<open>config_cache\<close> as
  it was. \<^verbatim>\<open>veml7700_set_gain\<close> on a handle with shadow 0x0000 and a bus that
  fails leaves the shadow at 0x0800, while \<open>current_gain\<close> keeps its old value.
\<close>

theorem setter_failure_counterexample:
  "initialized sensor0 \<and> config_cache sensor0 = 0 \<and>
   fst (veml7700_set_gain (Some sensor0) VEML7700_GAIN_2 dead_bus) = VEML7700_ERROR_I2C_TX \<and>
   map_option config_cache (fst (snd (veml7700_set_gain (Some sensor0) VEML7700_GAIN_2 dead_bus)))
     = Some 0x0800 \<and>
   map_option current_gain (fst (snd (veml7700_set_gain (Some sensor0) VEML7700_GAIN_2 dead_bus)))
     = Some VEML7700_GAIN_1"
  by (simp add: veml7700_set_gain_def write_reg_initialized i2c_write_blocking_simp
        sensor0_def dead_bus_def VEML7700_GAIN_2_def VEML7700_OK_def VEML7700_ERROR_I2C_TX_def)

text \<open>
  Claim C1, amended. When the register write of a gain, integration-time, persistence or
  interrupt setter fails, the handle holds the shadow whose write was attempted (the
  previous \<open>config_cache\<close> with the setter's bit field replaced) and every other field,
  \<open>current_gain\<close> and \<open>current_it\<close> among them, is unchanged. The construction of
  the configuration word in \<^verbatim>\<open>veml7700_init\<close> has the same order: when its write
  fails the handle holds the new word 0x0000, not the previous shadow.
\<close>

theorem setter_failure_shadow:
  assumes "initialized s"
  shows "(fst (veml7700_set_gain (Some s) gain w) \<noteq> VEML7700_OK \<longrightarrow>
            fst (snd (veml7700_set_gain (Some s) gain w)) =
              Some (s\<lparr>config_cache :=
                        (config_cache s AND NOT (push_bit 11 3)) OR push_bit 11 (ucast gain)\<rparr>)) \<and>
         (fst (veml7700_set_integration_time (Some s) it w) \<noteq> VEML7700_OK \<longrightarrow>
            fst (snd (veml7700_set_integration_time (Some s) it w)) =
              Some (s\<lparr>config_cache :=
                        (config_cache s AND NOT (push_bit 6 15)) OR push_bit 6 (ucast it)\<rparr>)) \<and>
         (fst (veml7700_set_persistence (Some s) pers w) \<noteq> VEML7700_OK \<longrightarrow>
            fst (snd (veml7700_set_persistence (Some s) pers w)) =
              Some (s\<lparr>config_cache :=
                        (config_cache s AND NOT (push_bit 4 3)) OR push_bit 4 (ucast pers)\<rparr>)) \<and>
         (fst (veml7700_enable_interrupt (Some s) enable w) \<noteq> VEML7700_OK \<longrightarrow>
            fst (snd (veml7700_enable_interrupt (Some s) enable w)) =
              Some (s\<lparr>config_cache :=
                        (if enable then config_cache s OR 2 else config_cache s AND NOT 2)\<rparr>)) \<and>
         (veml7700_read_reg (Some (s0\<lparr>i2c_port := Some p, initialized := True\<rparr>))
             VEML7700_REG_ID Valid w0 = (VEML7700_OK, Some device_id, w1) \<and>
          (device_id AND 0xFF = 0x81 \<or> drop_bit 8 device_id = 0x28) \<and>
          fst (i2c_write_blocking (Some p) VEML7700_I2C_ADDRESS
                 [VEML7700_REG_ALS_CONF, 0, 0] False w1) \<noteq> 3 \<longrightarrow>
            veml7700_init (Some s0) (Some p) sda_pin scl_pin baudrate w0 =
              (VEML7700_ERROR_I2C_TX,
               Some (s0\<lparr>i2c_port := Some p, initialized := False,
                        current_gain := VEML7700_GAIN_1, current_it := VEML7700_IT_100MS,
                        config_cache := 0\<rparr>),
               snd (i2c_write_blocking (Some p) VEML7700_I2C_ADDRESS
                      [VEML7700_REG_ALS_CONF, 0, 0] False w1)))"
proof -
  have setters: "(fst (veml7700_set_gain (Some s) gain w) \<noteq> VEML7700_OK \<longrightarrow>
            fst (snd (veml7700_set_gain (Some s) gain w)) =
              Some (s\<lparr>config_cache :=
                        (config_cache s AND NOT (push_bit 11 3)) OR push_bit 11 (ucast gain)\<rparr>)) \<and>
         (fst (veml7700_set_integration_time (Some s) it w) \<noteq> VEML7700_OK \<longrightarrow>
            fst (snd (veml7700_set_integration_time (Some s) it w)) =
              Some (s\<lparr>config_cache :=
                        (config_cache s AND NOT (push_bit 6 15)) OR push_bit 6 (ucast it)\<rparr>)) \<and>
         (fst (veml7700_set_persistence (Some s) pers w) \<noteq> VEML7700_OK \<longrightarrow>
            fst (snd (veml7700_set_persistence (Some s) pers w)) =
              Some (s\<lparr>config_cache :=
                        (config_cache s AND NOT (push_bit 4 3)) OR push_bit 4 (ucast pers)\<rparr>)) \<and>
         (fst (veml7700_enable_interrupt (Some s) enable w) \<noteq> VEML7700_OK \<longrightarrow>
            fst (snd (veml7700_enable_interrupt (Some s) enable w)) =
              Some (s\<lparr>config_cache :=
                        (if enable then config_cache s OR 2 else config_cache s AND NOT 2)\<rparr>))"
    using assms
    by (simp add: veml7700_set_gain_def veml7700_set_integration_time_def
        veml7700_set_persistence_def veml7700_enable_interrupt_def
        write_reg_initialized Let_def split: prod.splits)
  moreover have "veml7700_init (Some s0) (Some p) sda_pin scl_pin baudrate w0 =
              (VEML7700_ERROR_I2C_TX,
               Some (s0\<lparr>i2c_port := Some p, initialized := False,
                        current_gain := VEML7700_GAIN_1, current_it := VEML7700_IT_100MS,
                        config_cache := 0\<rparr>),
               snd (i2c_write_blocking (Some p) VEML7700_I2C_ADDRESS
                      [VEML7700_REG_ALS_CONF, 0, 0] False w1))"
    if "veml7700_read_reg (Some (s0\<lparr>i2c_port := Some p, initialized := True\<rparr>))
             VEML7700_REG_ID Valid w0 = (VEML7700_OK, Some device_id, w1)"
      and "device_id AND 0xFF = 0x81 \<or> drop_bit 8 device_id = 0x28"
      and "fst (i2c_write_blocking (Some p) VEML7700_I2C_ADDRESS
                 [VEML7700_REG_ALS_CONF, 0, 0] False w1) \<noteq> 3"
    using that by (rule init_conf_write_fails)
  ultimately show ?thesis by blast
qed

theorem setter_failure_shadow_witness:
  "initialized sensor0 \<and>
   fst (veml7700_set_gain (Some sensor0) VEML7700_GAIN_2 dead_bus) \<noteq> VEML7700_OK \<and>
   fst (snd (veml7700_set_gain (Some sensor0) VEML7700_GAIN_2 dead_bus)) =
     Some (sensor0\<lparr>config_cache := 0x0800\<rparr>) \<and>
   veml7700_read_reg (Some (sensor_stale\<lparr>i2c_port := Some 1, initialized := True\<rparr>))
      VEML7700_REG_ID Valid (readonly_bus (id_regs 0x0081)) =
     (VEML7700_OK, Some 0x0081,
      (readonly_bus (id_regs 0x0081))
         \<lparr>trace := [I2C_Read (Some 1) VEML7700_I2C_ADDRESS 2 False,
                    I2C_Write (Some 1) VEML7700_I2C_ADDRESS [VEML7700_REG_ID] True]\<rparr>) \<and>
   fst (veml7700_init (Some sensor_stale) (Some 1) 4 5 100000 (readonly_bus (id_regs 0x0081)))
     = VEML7700_ERROR_I2C_TX \<and>
   config_cache sensor_stale = 0x0800 \<and>
   map_option config_cache
     (fst (snd (veml7700_init (Some sensor_stale) (Some 1) 4 5 100000
                  (readonly_bus (id_regs 0x0081))))) = Some 0"
proof -
  have i: "initialized sensor0" by (simp add: sensor0_def)
  have f: "fst (veml7700_set_gain (Some sensor0) VEML7700_GAIN_2 dead_bus) \<noteq> VEML7700_OK"
    by (simp add: veml7700_set_gain_def write_reg_initialized i2c_write_blocking_simp
        sensor0_def dead_bus_def VEML7700_OK_def VEML7700_ERROR_I2C_TX_def)
  have r: "veml7700_read_reg (Some (sensor_stale\<lparr>i2c_port := Some 1, initialized := True\<rparr>))
      VEML7700_REG_ID Valid (readonly_bus (id_regs 0x0081)) =
     (VEML7700_OK, Some 0x0081,
      (readonly_bus (id_regs 0x0081))
         \<lparr>trace := [I2C_Read (Some 1) VEML7700_I2C_ADDRESS 2 False,
                    I2C_Write (Some 1) VEML7700_I2C_ADDRESS [VEML7700_REG_ID] True]\<rparr>)"
    by (simp add: read_reg_initialized i2c_write_blocking_simp i2c_read_blocking_simp
          readonly_bus_def readonly_respond_def id_regs_def Let_def)
  have a: "(0x0081 :: 16 word) AND 0xFF = 0x81 \<or> drop_bit 8 (0x0081 :: 16 word) = 0x28"
    by simp
  have wf: "fst (i2c_write_blocking (Some 1) VEML7700_I2C_ADDRESS [VEML7700_REG_ALS_CONF, 0, 0] False
              ((readonly_bus (id_regs 0x0081))
                 \<lparr>trace := [I2C_Read (Some 1) VEML7700_I2C_ADDRESS 2 False,
                    I2C_Write (Some 1) VEML7700_I2C_ADDRESS [VEML7700_REG_ID] True]\<rparr>)) \<noteq> 3"
    by (simp add: i2c_write_blocking_simp readonly_bus_def readonly_respond_def)
  show ?thesis
    using i f r a wf
      setter_failure_shadow[OF i, where gain = VEML7700_GAIN_2 and w = dead_bus
        and ?s0.0 = sensor_stale and p = 1 and ?w0.0 = "readonly_bus (id_regs 0x0081)"
        and device_id = "0x0081" and sda_pin = 4 and scl_pin = 5 and baudrate = 100000]
    by (simp add: sensor0_def sensor_stale_def VEML7700_GAIN_2_def)
qed



text \<open>
  Claim C6, as stated: the resolution lies within [0.0042, 2.1504]. The code computes in
  binary32, where the constant \<^verbatim>\<open>0.0042f\<close> is 9019431/2^31, a little below
  0.0042; at gain x2 and 800 ms the resolution is that value, below the stated lower bound.
\<close>

theorem resolution_lower_bound_counterexample:
  "valid_gain VEML7700_GAIN_2 \<and> valid_it VEML7700_IT_800MS \<and>
   veml7700_get_resolution VEML7700_GAIN_2 VEML7700_IT_800MS = 9019431 / 2147483648 \<and>
   veml7700_get_resolution VEML7700_GAIN_2 VEML7700_IT_800MS < 42 / 10000"
proof -
  have "veml7700_get_resolution VEML7700_GAIN_2 VEML7700_IT_800MS = 9019431 / 2147483648"
    unfolding resolution_table f32_base by simp
  then show ?thesis by (simp add: valid_gain_def valid_it_def)
qed

text \<open>
  Claim C6, amended. For all enumerators of gain and integration time the resolution lies
  between the binary32 values of the constants 0.0042 and 2.1504 that the code clamps to,
  which are 9019431/2^31 and 9019431/2^22, and it does not decrease when the gain factor
  (1/8, 1/4, 1, 2) decreases or the integration time (25 to 800 ms) decreases.
\<close>

theorem resolution_f32_bounds_monotone:
  assumes "valid_gain g" "valid_gain g'" "valid_it t" "valid_it t'"
  shows "f32_lit (42 / 10000) = 9019431 / 2147483648 \<and>
         f32_lit (21504 / 10000) = 9019431 / 4194304 \<and>
         9019431 / 2147483648 \<le> veml7700_get_resolution g t \<and>
         veml7700_get_resolution g t \<le> 9019431 / 4194304 \<and>
         (spec_gain_factor g' \<le> spec_gain_factor g \<longrightarrow>
            veml7700_get_resolution g t \<le> veml7700_get_resolution g' t) \<and>
         (spec_it_ms t' \<le> spec_it_ms t \<longrightarrow>
            veml7700_get_resolution g t \<le> veml7700_get_resolution g t')"
proof -
  define c :: rat where "c = 9019431 / 2147483648"
  have c: "0 < c" by (simp add: c_def)
  have top: "9019431 / 4194304 = 512 * c" by (simp add: c_def)
  note gv = gain_val_pos[OF assms(1)] and gv' = gain_val_pos[OF assms(2)]
  note iv = it_val_pos[OF assms(3)] and iv' = it_val_pos[OF assms(4)]
  have res: "veml7700_get_resolution h u = c * (2 / gain_val h) * (800 / it_val u)"
    if "valid_gain h" "valid_it u" for h u
    unfolding resolution_formula[OF that] f32_base c_def ..
  have a: "1 \<le> 2 / gain_val g" "2 / gain_val g \<le> 16" using gv by (simp_all add: field_simps)
  have b: "1 \<le> 800 / it_val t" "800 / it_val t \<le> 32" using iv by (simp_all add: field_simps)
  define x where "x = (2 / gain_val g) * (800 / it_val t)"
  have "1 * 1 \<le> x" unfolding x_def
    using a b gv iv by (intro mult_mono) simp_all
  then have x1: "1 \<le> x" by simp
  have "x \<le> 16 * 32" unfolding x_def
    using a b gv iv by (intro mult_mono) simp_all
  then have x2: "x \<le> 512" by simp
  have "c * 1 \<le> c * x" using x1 c by (intro mult_left_mono) simp_all
  then have lo: "c \<le> c * (2 / gain_val g) * (800 / it_val t)"
    by (simp only: x_def mult.assoc mult_1_right)
  have "c * x \<le> c * 512" using x2 c by (intro mult_left_mono) simp_all
  then have hi: "c * (2 / gain_val g) * (800 / it_val t) \<le> 512 * c"
    by (simp only: x_def mult.assoc mult.commute[of c 512])
  have mg: "c * (2 / gain_val g) * (800 / it_val t) \<le> c * (2 / gain_val g') * (800 / it_val t)"
    if "spec_gain_factor g' \<le> spec_gain_factor g"
  proof -
    have "gain_val g' \<le> gain_val g"
      using that by (simp only: gain_val_spec[OF assms(1)] gain_val_spec[OF assms(2)])
    then have "2 / gain_val g \<le> 2 / gain_val g'"
      using gv gv' by (intro divide_left_mono) simp_all
    then have "c * (2 / gain_val g) \<le> c * (2 / gain_val g')"
      using c by (intro mult_left_mono) simp_all
    then show ?thesis using b iv by (intro mult_right_mono) simp_all
  qed
  have mt: "c * (2 / gain_val g) * (800 / it_val t) \<le> c * (2 / gain_val g) * (800 / it_val t')"
    if "spec_it_ms t' \<le> spec_it_ms t"
  proof -
    have "it_val t' \<le> it_val t"
      using that by (simp only: it_val_spec[OF assms(3)] it_val_spec[OF assms(4)])
    then have "800 / it_val t \<le> 800 / it_val t'"
      using iv iv' by (intro divide_left_mono) simp_all
    moreover have "0 \<le> c * (2 / gain_val g)" using c a gv by simp
    ultimately show ?thesis by (intro mult_left_mono) simp_all
  qed
  show ?thesis
    unfolding res[OF assms(1,3)] res[OF assms(2,3)] res[OF assms(1,4)] f32_base f32_top_value
      top c_def[symmetric]
    using lo hi mg mt by blast
qed

theorem resolution_f32_bounds_monotone_witness:
  "valid_gain VEML7700_GAIN_2 \<and> valid_gain VEML7700_GAIN_1_8 \<and>
   valid_it VEML7700_IT_800MS \<and> valid_it VEML7700_IT_25MS \<and>
   spec_gain_factor VEML7700_GAIN_1_8 \<le> spec_gain_factor VEML7700_GAIN_2 \<and>
   spec_it_ms VEML7700_IT_25MS \<le> spec_it_ms VEML7700_IT_800MS \<and>
   veml7700_get_resolution VEML7700_GAIN_2 VEML7700_IT_800MS = 9019431 / 2147483648 \<and>
   veml7700_get_resolution VEML7700_GAIN_2 VEML7700_IT_800MS
     \<le> veml7700_get_resolution VEML7700_GAIN_1_8 VEML7700_IT_800MS \<and>
   veml7700_get_resolution VEML7700_GAIN_2 VEML7700_IT_800MS
     \<le> veml7700_get_resolution VEML7700_GAIN_2 VEML7700_IT_25MS \<and>
   veml7700_get_resolution VEML7700_GAIN_1_8 VEML7700_IT_25MS = 9019431 / 4194304"
proof -
  have v: "valid_gain VEML7700_GAIN_2" "valid_gain VEML7700_GAIN_1_8"
    "valid_it VEML7700_IT_800MS" "valid_it VEML7700_IT_25MS"
    by (simp_all add: valid_gain_def valid_it_def)
  have o: "spec_gain_factor VEML7700_GAIN_1_8 \<le> spec_gain_factor VEML7700_GAIN_2"
    "spec_it_ms VEML7700_IT_25MS \<le> spec_it_ms VEML7700_IT_800MS"
    by (simp_all add: spec_gain_factor_values spec_it_ms_values)
  have e: "veml7700_get_resolution VEML7700_GAIN_2 VEML7700_IT_800MS = 9019431 / 2147483648"
    "veml7700_get_resolution VEML7700_GAIN_1_8 VEML7700_IT_25MS = 9019431 / 4194304"
    unfolding resolution_table f32_base by simp_all
  show ?thesis
    using v o e resolution_f32_bounds_monotone[OF v] by simp
qed

end
